theory Spec2Isabelle
  imports Complex_Main "HOL-Library.Word"
begin

section \<open>GPU active-set selection for Gaussian-process regression\<close>

text \<open>
  A shallow embedding of \<^verbatim>\<open>src/gpu_active_set_selector.cpp\<close>.

  Conventions of the embedding.
  \<^item> A C \<^verbatim>\<open>float\<close> or \<^verbatim>\<open>double\<close> is a \<^typ>\<open>real\<close>: arithmetic is exact, rounding is
    not modelled. Where IEEE arithmetic can leave the finite numbers (a division by
    zero, a logarithm of a non-positive number) and the code goes on with the result,
    as in the confidence multiplier and in the conjugate-gradient solver, the value is
    an \<open>xfloat\<close>: a real, an infinity or NaN. Elsewhere the model returns a fault or
    the theorem carries the hypothesis that excludes the case.
  \<^item> A \<^verbatim>\<open>float*\<close> is a map from offsets to values, \<^typ>\<open>nat \<Rightarrow> real\<close>; a matrix is
    stored column by column, entry \<open>(i, j)\<close> at offset \<open>i + j * lda\<close>, as cuBLAS and
    CULA read it.
  \<^item> A C \<^verbatim>\<open>int\<close> or \<^verbatim>\<open>unsigned int\<close> that takes part in a mixed comparison is a
    \<^typ>\<open>32 word\<close>, read through \<^const>\<open>sint\<close> or \<^const>\<open>unat\<close>; sizes and offsets
    that the code only uses as non-negative counts are \<^typ>\<open>nat\<close>.
\<close>

text \<open>
  The ways in which a run leaves the model: a signed 32-bit overflow; a floating-point
  result that is infinite or NaN; a size argument that cuBLAS rejects
  (\<^verbatim>\<open>CUBLAS_STATUS_INVALID_VALUE\<close>, on which \<^verbatim>\<open>cublasSafeCall\<close> aborts); a negative
  length given to \<^verbatim>\<open>new[]\<close>.
\<close>

datatype fault = SignedOverflow | NotFinite | InvalidValue | BadArrayLength

subsection \<open>SECovariance\<close>

text \<open>
  \<^verbatim>\<open>
  float SECovariance(float* x, float* y, int dim, int sigma) {
    float sum = 0;
    for (int i = 0; i < dim; i++) { sum += (x[i] - y[i]) * (x[i] - y[i]); }
    return exp(-sum / (2 * sigma));
  }
  \<close>
  The parameter \<open>sigma\<close> is declared \<^verbatim>\<open>int\<close>, so \<open>2 * sigma\<close> is an integer product
  (undefined when it leaves 32 bits). With \<open>2 * sigma = 0\<close> the quotient is IEEE
  \<open>-inf\<close> when \<open>sum > 0\<close>, whose exponential is \<open>0\<close>, and NaN when \<open>sum = 0\<close>.
\<close>

function SECovariance_loop :: "(nat \<Rightarrow> real) \<Rightarrow> (nat \<Rightarrow> real) \<Rightarrow> int \<Rightarrow> nat \<Rightarrow> real \<Rightarrow> real" where
  "SECovariance_loop x y dimn i sumv =
     (if int i < dimn
      then SECovariance_loop x y dimn (Suc i) (sumv + (x i - y i) * (x i - y i))
      else sumv)"
  by pat_completeness auto
termination
  by (relation "measure (\<lambda>(x, y, dimn, i, sumv). nat (dimn - int i))") auto

declare SECovariance_loop.simps [simp del]

definition SECovariance :: "(nat \<Rightarrow> real) \<Rightarrow> (nat \<Rightarrow> real) \<Rightarrow> int \<Rightarrow> int \<Rightarrow> fault + real" where
  "SECovariance x y dimn sigma =
     (let sumv = SECovariance_loop x y dimn 0 0 in
      if 2 * sigma < - (2 ^ 31) \<or> 2 ^ 31 \<le> 2 * sigma then Inl SignedOverflow
      else if 2 * sigma = 0 then (if sumv = 0 then Inl NotFinite else Inr 0)
      else Inr (exp (- sumv / real_of_int (2 * sigma))))"

subsection \<open>Floats with infinities and NaN\<close>

text \<open>
  The values of IEEE 754 arithmetic without rounding: a real number, \<open>+inf\<close>, \<open>-inf\<close> or
  NaN. The operations follow the standard: NaN is absorbing; \<open>inf - inf\<close>, \<open>0 * inf\<close>,
  \<open>0 / 0\<close> and \<open>inf / inf\<close> are NaN; a non-zero number divided by zero is an infinity; a
  number divided by an infinity is 0; every comparison with NaN is false; the logarithm
  of 0 is \<open>-inf\<close> and that of a negative number is NaN. The sign of a zero is not
  modelled (like rounding): a zero divisor is read as \<open>+0\<close>.
\<close>

datatype xfloat = Fin real | PInf | MInf | NaN


fun x_mul :: "xfloat \<Rightarrow> xfloat \<Rightarrow> xfloat" where
  "x_mul NaN y = NaN"
| "x_mul x NaN = NaN"
| "x_mul (Fin a) (Fin b) = Fin (a * b)"
| "x_mul (Fin a) PInf = (if a = 0 then NaN else if 0 < a then PInf else MInf)"
| "x_mul (Fin a) MInf = (if a = 0 then NaN else if 0 < a then MInf else PInf)"
| "x_mul PInf (Fin b) = (if b = 0 then NaN else if 0 < b then PInf else MInf)"
| "x_mul MInf (Fin b) = (if b = 0 then NaN else if 0 < b then MInf else PInf)"
| "x_mul PInf PInf = PInf"
| "x_mul PInf MInf = MInf"
| "x_mul MInf PInf = MInf"
| "x_mul MInf MInf = PInf"

fun x_div :: "xfloat \<Rightarrow> xfloat \<Rightarrow> xfloat" where
  "x_div NaN y = NaN"
| "x_div x NaN = NaN"
| "x_div (Fin a) (Fin b) =
     (if b \<noteq> 0 then Fin (a / b) else if a = 0 then NaN else if 0 < a then PInf else MInf)"
| "x_div (Fin a) PInf = Fin 0"
| "x_div (Fin a) MInf = Fin 0"
| "x_div PInf (Fin b) = (if 0 \<le> b then PInf else MInf)"
| "x_div MInf (Fin b) = (if 0 \<le> b then MInf else PInf)"
| "x_div PInf PInf = NaN"
| "x_div PInf MInf = NaN"
| "x_div MInf PInf = NaN"
| "x_div MInf MInf = NaN"


fun x_log :: "xfloat \<Rightarrow> xfloat" where
  "x_log (Fin a) = (if 0 < a then Fin (ln a) else if a = 0 then MInf else NaN)"
| "x_log PInf = PInf"
| "x_log MInf = NaN"
| "x_log NaN = NaN"

subsection \<open>The confidence multiplier of the selection loops\<close>

text \<open>
  Before the loop, in \<^verbatim>\<open>SelectChol\<close> and \<^verbatim>\<open>SelectCG\<close> alike:
  \<^verbatim>\<open>float beta = 2 * log(numPoints * pow(M_PI,2) / (6 * tolerance));\<close>
  and inside the loop, with \<^verbatim>\<open>unsigned int k\<close>:
  \<^verbatim>\<open>beta = 2 * log(numPoints * pow(M_PI,2) * pow((k+1),2) / (6 * tolerance));\<close>
  The sum \<open>k+1\<close> is an unsigned 32-bit sum. \<^verbatim>\<open>numPoints\<close> and \<^verbatim>\<open>tolerance\<close> are finite
  arguments; the quotient and the logarithm can be infinite or NaN (for a tolerance that
  is not positive, or a pool size that is not), and the code stores that value in
  \<^verbatim>\<open>beta\<close> and goes on.
\<close>

definition beta_before_loop :: "32 word \<Rightarrow> real \<Rightarrow> xfloat" where
  "beta_before_loop numPoints tolerance =
     x_mul (Fin 2)
       (x_log (x_div (Fin (real_of_int (sint numPoints) * pi ^ 2)) (Fin (6 * tolerance))))"

definition beta_in_loop :: "32 word \<Rightarrow> real \<Rightarrow> 32 word \<Rightarrow> xfloat" where
  "beta_in_loop numPoints tolerance k =
     x_mul (Fin 2)
       (x_log (x_div (Fin (real_of_int (sint numPoints) * pi ^ 2 * real (unat (k + 1)) ^ 2))
                     (Fin (6 * tolerance))))"

subsection \<open>The selection loop of SelectChol\<close>

text \<open>
  The device routines that \<^verbatim>\<open>SelectChol\<close> calls live in CUDA sources outside this
  file (\<^verbatim>\<open>construct_*_buffers\<close>, \<^verbatim>\<open>compute_sqrt_var\<close>,
  \<^verbatim>\<open>activate_max_subset_buffers\<close>, \<^verbatim>\<open>update_active_set_buffers\<close>,
  \<^verbatim>\<open>find_best_active_set_candidate\<close>). The loop is modelled over an opaque device
  state \<open>'d\<close> with these routines as parameters; the pass
  \<^verbatim>\<open>for (i = 0; i < numPoints; i += batchSize) GpPredictCholBatch(...)\<close> over the pool and
  the two solvers \<^verbatim>\<open>UpdateChol\<close> and \<^verbatim>\<open>SolveLinearSystemChol\<close>, whose bodies are calls of
  cuBLAS, CULA and \<^verbatim>\<open>compute_sqrt_var\<close> on device memory, enter the same way. The
  allocations with \<^verbatim>\<open>cudaMalloc\<close>, which use the clamped \<^verbatim>\<open>maxSize\<close>, belong to
  \<open>construct_buffers\<close>. What the model keeps of \<^verbatim>\<open>SelectChol\<close> itself is its
  control flow and its host variables \<^verbatim>\<open>k\<close>, \<^verbatim>\<open>beta\<close>, \<^verbatim>\<open>nextIndex\<close>, \<^verbatim>\<open>score\<close>
  and \<^verbatim>\<open>indices\<close> (the vector \<^verbatim>\<open>scores\<close> is written and never read; it is left out).
  The field \<open>st_updates\<close> counts the calls of \<^verbatim>\<open>update_active_set_buffers\<close>, each
  of which admits one point to the active set.
\<close>

record 'd chol_routines =
  construct_buffers :: "32 word \<Rightarrow> 32 word \<Rightarrow> 'd"
  activate_max_subset_buffers :: "32 word \<Rightarrow> 'd \<Rightarrow> 'd"
  update_active_set_buffers :: "'d \<Rightarrow> 'd"
  predict_pool :: "'d \<Rightarrow> 'd"
  find_best_active_set_candidate :: "real \<Rightarrow> xfloat \<Rightarrow> real \<Rightarrow> 'd \<Rightarrow> 'd"
  d_next_index :: "'d \<Rightarrow> 32 word"
  d_scores :: "'d \<Rightarrow> real"
  UpdateChol :: "'d \<Rightarrow> 'd"
  SolveLinearSystemChol :: "'d \<Rightarrow> 'd"

record 'd chol_state =
  st_k :: "32 word"
  st_beta :: xfloat
  st_nextIndex :: "32 word"
  st_score :: real
  st_indices :: "32 word list"
  st_updates :: nat
  st_dev :: "'d"

text \<open>
  \<^verbatim>\<open>
  // force valid num points
  if (maxSize > numPoints) { maxSize = numPoints; }
  \<close>
  Both operands are \<^verbatim>\<open>int\<close>: the comparison is signed.
\<close>

definition force_valid_num_points :: "32 word \<Rightarrow> 32 word \<Rightarrow> 32 word" where
  "force_valid_num_points maxSize numPoints =
     (if numPoints <s maxSize then numPoints else maxSize)"

text \<open>
  One pass through the body of
  \<^verbatim>\<open>for (k = 1; k < maxSize && nextIndex != -1; k++) { ... }\<close>:
  \<^verbatim>\<open>
  beta = 2 * log(numPoints * pow(M_PI,2) * pow((k+1),2) / (6 * tolerance));
  for (int i = 0; i < numPoints; i += batchSize) GpPredictCholBatch(...);
  find_best_active_set_candidate(&maxSubBuffers, &classificationBuffers,
                                 d_mu, d_sigma, level, beta, accuracy, hypers);
  cudaMemcpy(&nextIndex, maxSubBuffers.d_next_index, ...);
  cudaMemcpy(&score, maxSubBuffers.scores, ...);
  indices.push_back(nextIndex);
  if (nextIndex >= 0) {
    update_active_set_buffers(&activeSetBuffers, &maxSubBuffers, hypers);
    if (incremental) UpdateChol(...); else SolveLinearSystemChol(...);
  }
  \<close>
  with \<^verbatim>\<open>level = 0.0f\<close>.
\<close>

definition SelectChol_body ::
  "'d chol_routines \<Rightarrow> 32 word \<Rightarrow> real \<Rightarrow> real \<Rightarrow> bool \<Rightarrow> 'd chol_state \<Rightarrow> 'd chol_state" where
  "SelectChol_body R numPoints tolerance accuracy incremental s =
     (let beta = beta_in_loop numPoints tolerance (st_k s);
          d1 = predict_pool R (st_dev s);
          d2 = find_best_active_set_candidate R 0 beta accuracy d1;
          nextIndex = d_next_index R d2;
          score = d_scores R d2
      in if 0 \<le>s nextIndex
         then s\<lparr>st_beta := beta, st_nextIndex := nextIndex, st_score := score,
                st_indices := st_indices s @ [nextIndex],
                st_updates := Suc (st_updates s),
                st_dev := (if incremental then UpdateChol R else SolveLinearSystemChol R)
                            (update_active_set_buffers R d2)\<rparr>
         else s\<lparr>st_beta := beta, st_nextIndex := nextIndex, st_score := score,
                st_indices := st_indices s @ [nextIndex],
                st_dev := d2\<rparr>)"

text \<open>
  The loop. \<^verbatim>\<open>k\<close> is \<^verbatim>\<open>unsigned int\<close> and \<^verbatim>\<open>maxSize\<close> is \<^verbatim>\<open>int\<close>, so \<^verbatim>\<open>k < maxSize\<close>
  compares the two as unsigned 32-bit values: the order of \<^typ>\<open>32 word\<close>.
\<close>

function SelectChol_loop ::
  "'d chol_routines \<Rightarrow> 32 word \<Rightarrow> 32 word \<Rightarrow> real \<Rightarrow> real \<Rightarrow> bool \<Rightarrow> 'd chol_state \<Rightarrow> 'd chol_state" where
  "SelectChol_loop R maxSize numPoints tolerance accuracy incremental s =
     (if st_k s < maxSize \<and> st_nextIndex s \<noteq> - 1
      then SelectChol_loop R maxSize numPoints tolerance accuracy incremental
             ((SelectChol_body R numPoints tolerance accuracy incremental s)\<lparr>st_k := st_k s + 1\<rparr>)
      else s)"
  by pat_completeness auto
termination
  by (relation "measure (\<lambda>(R, maxSize, numPoints, tolerance, accuracy, incremental, s).
                  unat maxSize - unat (st_k s))")
     (simp, unat_arith)

declare SelectChol_loop.simps [simp del]

text \<open>
  \<^verbatim>\<open>SelectChol\<close> up to the end of the loop. \<open>rand_index\<close> is the value of
  \<^verbatim>\<open>rand() % numPoints\<close> (undefined when \<^verbatim>\<open>numPoints\<close> is 0).
  \<^verbatim>\<open>
  if (maxSize > numPoints) maxSize = numPoints;
  construct_active_set_buffers(&activeSetBuffers, inputDim, targetDim, maxSize);
  construct_max_subset_buffers(&maxSubBuffers, ..., numPoints);
  construct_classification_buffers(&classificationBuffers, numPoints);
  int firstIndex = rand() % numPoints;
  if (startIndex != -1) firstIndex = startIndex;
  activate_max_subset_buffers(&maxSubBuffers, firstIndex);
  update_active_set_buffers(&activeSetBuffers, &maxSubBuffers, hypers);
  float beta = 2 * log(numPoints * pow(M_PI,2) / (6 * tolerance));
  float score = 0.0f;  int nextIndex = 0;  indices.push_back(firstIndex);
  \<close>
\<close>

definition SelectChol_seeded ::
  "'d chol_routines \<Rightarrow> 32 word \<Rightarrow> 32 word \<Rightarrow> real \<Rightarrow> 32 word \<Rightarrow> 32 word \<Rightarrow> 'd chol_state" where
  "SelectChol_seeded R maxSize numPoints tolerance startIndex rand_index =
     (let firstIndex = (if startIndex \<noteq> - 1 then startIndex else rand_index);
          d0 = construct_buffers R maxSize numPoints
      in \<lparr>st_k = 1,
          st_beta = beta_before_loop numPoints tolerance,
          st_nextIndex = 0,
          st_score = 0,
          st_indices = [firstIndex],
          st_updates = 1,
          st_dev = update_active_set_buffers R (activate_max_subset_buffers R firstIndex d0)\<rparr>)"

definition SelectChol ::
  "'d chol_routines \<Rightarrow> 32 word \<Rightarrow> 32 word \<Rightarrow> real \<Rightarrow> real \<Rightarrow> 32 word \<Rightarrow> bool \<Rightarrow> 32 word \<Rightarrow> 'd chol_state" where
  "SelectChol R maxSize numPoints tolerance accuracy startIndex incremental rand_index =
     (let maxSize' = force_valid_num_points maxSize numPoints;
          s = SelectChol_loop R maxSize' numPoints tolerance accuracy incremental
                (SelectChol_seeded R maxSize' numPoints tolerance startIndex rand_index)
      in s\<lparr>st_dev := predict_pool R (st_dev s)\<rparr>)"

subsection \<open>The selection loop of SelectCG\<close>

text \<open>
  The same treatment for \<^verbatim>\<open>SelectCG\<close>. \<open>count_unclassified\<close> is the count the loop
  \<^verbatim>\<open>for (i = 0; i < numPoints; i++) if (!h_active[i] && !h_upper[i] && !h_lower[i]) numLeft++\<close>
  makes over the flags copied from the device; \<open>predict_unclassified\<close> is the effect of
  the calls of \<^verbatim>\<open>GpPredictCG\<close> in that loop.
\<close>

record 'd cg_routines =
  cg_construct_buffers :: "32 word \<Rightarrow> 32 word \<Rightarrow> 'd"
  cg_activate_max_subset_buffers :: "32 word \<Rightarrow> 'd \<Rightarrow> 'd"
  cg_update_active_set_buffers :: "'d \<Rightarrow> 'd"
  count_unclassified :: "'d \<Rightarrow> 32 word"
  predict_unclassified :: "'d \<Rightarrow> 'd"
  cg_find_best_active_set_candidate :: "real \<Rightarrow> xfloat \<Rightarrow> real \<Rightarrow> 'd \<Rightarrow> 'd"
  SolveLinearSystemCG_dev :: "'d \<Rightarrow> 'd"
  cg_predict_pool :: "'d \<Rightarrow> 'd"

record 'd cg_state =
  cg_k :: "32 word"
  cg_beta :: xfloat
  cg_numLeft :: "32 word"
  cg_updates :: nat
  cg_dev :: "'d"

text \<open>
  \<^verbatim>\<open>
  numLeft = 0;
  for (...) if (unclassified i) { numLeft++; GpPredictCG(..., i, ...); }
  if (numLeft == 0) { continue; }
  find_best_active_set_candidate(..., d_mu, d_sigma, level, beta, 0.0f, hypers);
  update_active_set_buffers(&activeSetBuffers, &maxSubBuffers, hypers);
  beta = 2 * log(numPoints * pow(M_PI,2) * pow((k+1),2) / (6 * tolerance));
  SolveLinearSystemCG(...);
  \<close>
\<close>

definition SelectCG_body ::
  "'d cg_routines \<Rightarrow> 32 word \<Rightarrow> real \<Rightarrow> 'd cg_state \<Rightarrow> 'd cg_state" where
  "SelectCG_body G numPoints tolerance s =
     (let numLeft = count_unclassified G (cg_dev s)
      in if numLeft = 0 then s\<lparr>cg_numLeft := numLeft\<rparr>
         else
           let d1 = predict_unclassified G (cg_dev s);
               d2 = cg_find_best_active_set_candidate G 0 (cg_beta s) 0 d1;
               d3 = cg_update_active_set_buffers G d2;
               beta = beta_in_loop numPoints tolerance (cg_k s)
           in s\<lparr>cg_beta := beta, cg_numLeft := numLeft,
                cg_updates := Suc (cg_updates s),
                cg_dev := SolveLinearSystemCG_dev G d3\<rparr>)"

text \<open>\<^verbatim>\<open>for (unsigned int k = 1; k < maxSize && numLeft > 0; k++)\<close>, \<^verbatim>\<open>numLeft\<close> an \<^verbatim>\<open>int\<close>.\<close>

function SelectCG_loop ::
  "'d cg_routines \<Rightarrow> 32 word \<Rightarrow> 32 word \<Rightarrow> real \<Rightarrow> 'd cg_state \<Rightarrow> 'd cg_state" where
  "SelectCG_loop G maxSize numPoints tolerance s =
     (if cg_k s < maxSize \<and> 0 <s cg_numLeft s
      then SelectCG_loop G maxSize numPoints tolerance
             ((SelectCG_body G numPoints tolerance s)\<lparr>cg_k := cg_k s + 1\<rparr>)
      else s)"
  by pat_completeness auto
termination
  by (relation "measure (\<lambda>(G, maxSize, numPoints, tolerance, s). unat maxSize - unat (cg_k s))")
     (simp, unat_arith)

declare SelectCG_loop.simps [simp del]

text \<open>
  \<^verbatim>\<open>
  if (maxSize > numPoints) maxSize = numPoints;
  int firstIndex = rand() % numPoints;
  activate_max_subset_buffers(&maxSubBuffers, firstIndex);
  update_active_set_buffers(&activeSetBuffers, &maxSubBuffers, hypers);
  SolveLinearSystemCG(...);
  float beta = 2 * log(numPoints * pow(M_PI,2) / (6 * tolerance));
  int numLeft = numPoints - 1;
  \<close>
\<close>

definition SelectCG_seeded ::
  "'d cg_routines \<Rightarrow> 32 word \<Rightarrow> 32 word \<Rightarrow> real \<Rightarrow> 32 word \<Rightarrow> 'd cg_state" where
  "SelectCG_seeded G maxSize numPoints tolerance rand_index =
     (let d0 = cg_construct_buffers G maxSize numPoints;
          d1 = cg_update_active_set_buffers G (cg_activate_max_subset_buffers G rand_index d0)
      in \<lparr>cg_k = 1,
          cg_beta = beta_before_loop numPoints tolerance,
          cg_numLeft = numPoints - 1,
          cg_updates = 1,
          cg_dev = SolveLinearSystemCG_dev G d1\<rparr>)"

definition SelectCG ::
  "'d cg_routines \<Rightarrow> 32 word \<Rightarrow> 32 word \<Rightarrow> real \<Rightarrow> 32 word \<Rightarrow> 'd cg_state" where
  "SelectCG G maxSize numPoints tolerance rand_index =
     (let maxSize' = force_valid_num_points maxSize numPoints;
          s = SelectCG_loop G maxSize' numPoints tolerance
                (SelectCG_seeded G maxSize' numPoints tolerance rand_index)
      in s\<lparr>cg_dev := cg_predict_pool G (cg_dev s)\<rparr>)"

subsection \<open>A scripted device, for running the loops on concrete inputs\<close>

text \<open>
  An instance of the device routines in which the classification follows a script: for
  \<^verbatim>\<open>SelectChol\<close> the device state is the list of next indices still to be returned
  (\<open>-1\<close> once it is empty) together with the cell \<^verbatim>\<open>d_next_index\<close>; for
  \<^verbatim>\<open>SelectCG\<close> it is the list of counts of unclassified points still to be seen.
  Every other routine leaves the state as it is.
\<close>

definition scripted_chol_routines :: "32 word list \<Rightarrow> (32 word list \<times> 32 word) chol_routines" where
  "scripted_chol_routines script =
     \<lparr>construct_buffers = (\<lambda>maxSize numPoints. (script, 0)),
      activate_max_subset_buffers = (\<lambda>i d. d),
      update_active_set_buffers = (\<lambda>d. d),
      predict_pool = (\<lambda>d. d),
      find_best_active_set_candidate =
        (\<lambda>level beta accuracy d. case fst d of [] \<Rightarrow> ([], - 1) | i # rest \<Rightarrow> (rest, i)),
      d_next_index = snd,
      d_scores = (\<lambda>d. 0),
      UpdateChol = (\<lambda>d. d),
      SolveLinearSystemChol = (\<lambda>d. d)\<rparr>"

definition scripted_cg_routines :: "32 word list \<Rightarrow> (32 word list) cg_routines" where
  "scripted_cg_routines script =
     \<lparr>cg_construct_buffers = (\<lambda>maxSize numPoints. script),
      cg_activate_max_subset_buffers = (\<lambda>i d. d),
      cg_update_active_set_buffers = (\<lambda>d. d),
      count_unclassified = (\<lambda>d. case d of [] \<Rightarrow> 0 | n # rest \<Rightarrow> n),
      predict_unclassified = (\<lambda>d. d),
      cg_find_best_active_set_candidate = (\<lambda>level beta accuracy d. tl d),
      SolveLinearSystemCG_dev = (\<lambda>d. d),
      cg_predict_pool = (\<lambda>d. d)\<rparr>"

text \<open>
  Device routines whose classification always has a point to offer: the next index is
  always 0 and one point is always left unclassified. The device state is empty.
\<close>

definition offering_chol_routines :: "unit chol_routines" where
  "offering_chol_routines =
     \<lparr>construct_buffers = (\<lambda>maxSize numPoints. ()),
      activate_max_subset_buffers = (\<lambda>i d. d),
      update_active_set_buffers = (\<lambda>d. d),
      predict_pool = (\<lambda>d. d),
      find_best_active_set_candidate = (\<lambda>level beta accuracy d. d),
      d_next_index = (\<lambda>d. 0),
      d_scores = (\<lambda>d. 0),
      UpdateChol = (\<lambda>d. d),
      SolveLinearSystemChol = (\<lambda>d. d)\<rparr>"

definition offering_cg_routines :: "unit cg_routines" where
  "offering_cg_routines =
     \<lparr>cg_construct_buffers = (\<lambda>maxSize numPoints. ()),
      cg_activate_max_subset_buffers = (\<lambda>i d. d),
      cg_update_active_set_buffers = (\<lambda>d. d),
      count_unclassified = (\<lambda>d. 1),
      predict_unclassified = (\<lambda>d. d),
      cg_find_best_active_set_candidate = (\<lambda>level beta accuracy d. d),
      SolveLinearSystemCG_dev = (\<lambda>d. d),
      cg_predict_pool = (\<lambda>d. d)\<rparr>"

subsection \<open>Device buffers and the cuBLAS routines the file calls\<close>

text \<open>
  The routines of cuBLAS are an external library; they are modelled from their
  documented meaning, on exact reals. \<open>n\<close> elements with stride 1 are the offsets
  \<open>0..<n\<close> of a buffer; a matrix argument with leading dimension \<open>lda\<close> has entry
  \<open>(i, j)\<close> at offset \<open>i + j * lda\<close>.
\<close>

type_synonym buffer = "nat \<Rightarrow> real"

definition cudaMemcpy :: "nat \<Rightarrow> buffer \<Rightarrow> buffer \<Rightarrow> buffer" where
  "cudaMemcpy n src dst = (\<lambda>i. if i < n then src i else dst i)"

definition cublasSdot :: "nat \<Rightarrow> buffer \<Rightarrow> buffer \<Rightarrow> real" where
  "cublasSdot n x y = (\<Sum>i<n. x i * y i)"

text \<open>\<^verbatim>\<open>cublasSgemv(CUBLAS_OP_T, m, n, a, A, lda, x, 1, b, y, 1)\<close>: \<open>y := a * A\<^sup>T x + b * y\<close>.\<close>

definition cublasSgemv_T :: "nat \<Rightarrow> nat \<Rightarrow> real \<Rightarrow> buffer \<Rightarrow> nat \<Rightarrow> buffer \<Rightarrow> real \<Rightarrow> buffer \<Rightarrow> buffer" where
  "cublasSgemv_T m n a A lda x b y =
     (\<lambda>j. if j < n then a * (\<Sum>i<m. A (i + j * lda) * x i) + b * y j else y j)"









subsection \<open>SolveLinearSystemCG\<close>







text \<open>Reading a component of a result that may be a fault.\<close>

definition on_result :: "('a \<Rightarrow> 'b) \<Rightarrow> fault + 'a \<Rightarrow> fault + 'b" where
  "on_result f r = (case r of Inl e \<Rightarrow> Inl e | Inr x \<Rightarrow> Inr (f x))"

text \<open>A buffer given by its first elements; the remaining offsets hold 0.\<close>

definition buffer_of :: "real list \<Rightarrow> buffer" where
  "buffer_of xs = (\<lambda>i. if i < length xs then xs ! i else 0)"


subsection \<open>Triangular solves\<close>

text \<open>
  \<^verbatim>\<open>cublasStrsm(CUBLAS_SIDE_LEFT, CUBLAS_FILL_MODE_UPPER, CUBLAS_OP_T, CUBLAS_DIAG_NON_UNIT,
              m, n, a, A, lda, B, ldb)\<close>
  solves \<open>A\<^sup>T X = a * B\<close> for the \<open>m \<times> n\<close> matrix \<open>X\<close>, which it writes over \<open>B\<close>; only the
  upper triangle of \<open>A\<close> is read. \<open>A\<^sup>T\<close> is lower triangular, so the rows of a column of
  \<open>X\<close> are obtained in increasing order:
  \<open>X(i,c) = (a * B(i,c) - (\<Sum>l<i. A(l,i) * X(l,c))) / A(i,i)\<close>.
  \<open>forward_rows A lda b i\<close> is the list of the first \<open>i\<close> rows for the right-hand side \<open>b\<close>.
\<close>

fun forward_rows :: "buffer \<Rightarrow> nat \<Rightarrow> (nat \<Rightarrow> real) \<Rightarrow> nat \<Rightarrow> real list" where
  "forward_rows A lda b 0 = []"
| "forward_rows A lda b (Suc i) =
     (let xs = forward_rows A lda b i
      in xs @ [(b i - (\<Sum>l<i. A (l + i * lda) * xs ! l)) / A (i + i * lda)])"

definition cublasStrsm_LUT :: "nat \<Rightarrow> nat \<Rightarrow> real \<Rightarrow> buffer \<Rightarrow> nat \<Rightarrow> buffer \<Rightarrow> nat \<Rightarrow> buffer" where
  "cublasStrsm_LUT m n a A lda B ldb =
     (\<lambda>off. if off mod ldb < m \<and> off div ldb < n
            then forward_rows A lda (\<lambda>i. a * B (i + (off div ldb) * ldb)) m ! (off mod ldb)
            else B off)"

text \<open>
  \<^verbatim>\<open>cublasStrsv(CUBLAS_FILL_MODE_UPPER, CUBLAS_OP_N, CUBLAS_DIAG_NON_UNIT, n, A, lda, x, 1)\<close>
  solves \<open>A x = b\<close> for upper triangular \<open>A\<close>, the right-hand side being the contents of
  \<open>x\<close> on entry: the rows are obtained in decreasing order,
  \<open>x(i) = (b(i) - (\<Sum>i<l<n. A(i,l) * x(l))) / A(i,i)\<close>.
  \<open>backward_rows A lda b n c\<close> is the list of the last \<open>c\<close> rows, \<open>x(n-c), \<dots>, x(n-1)\<close>.
\<close>

fun backward_rows :: "buffer \<Rightarrow> nat \<Rightarrow> (nat \<Rightarrow> real) \<Rightarrow> nat \<Rightarrow> nat \<Rightarrow> real list" where
  "backward_rows A lda b n 0 = []"
| "backward_rows A lda b n (Suc c) =
     (let xs = backward_rows A lda b n c; i = n - Suc c
      in ((b i - (\<Sum>l<c. A (i + (Suc i + l) * lda) * xs ! l)) / A (i + i * lda)) # xs)"

definition cublasStrsv_UN :: "nat \<Rightarrow> buffer \<Rightarrow> nat \<Rightarrow> buffer \<Rightarrow> buffer" where
  "cublasStrsv_UN n A lda x = (\<lambda>i. if i < n then backward_rows A lda x n n ! i else x i)"

text \<open>Whether the first \<open>n\<close> diagonal entries of \<open>A\<close> are all non-zero.\<close>

definition diagonal_nonzero :: "buffer \<Rightarrow> nat \<Rightarrow> nat \<Rightarrow> bool" where
  "diagonal_nonzero A lda n = list_all (\<lambda>i. A (i + i * lda) \<noteq> 0) [0..<n]"

subsection \<open>The prediction routines\<close>

text \<open>
  The device memory the prediction routines work on: the fields of
  \<^verbatim>\<open>ActiveSetBuffers\<close> that this file reads (\<^verbatim>\<open>active_kernel_matrix\<close>,
  \<^verbatim>\<open>active_targets\<close>, \<^verbatim>\<open>num_active\<close>, \<^verbatim>\<open>max_active\<close>) and the buffers \<^verbatim>\<open>d_L\<close>,
  \<^verbatim>\<open>d_alpha\<close>, \<^verbatim>\<open>d_kernelVector\<close>, \<^verbatim>\<open>d_gamma\<close>, \<^verbatim>\<open>d_scalar1\<close>, \<^verbatim>\<open>d_scalar2\<close>, \<^verbatim>\<open>d_mu\<close>,
  \<^verbatim>\<open>d_sigma\<close> that \<^verbatim>\<open>SelectChol\<close> allocates separately and passes down. The fields carry
  the prefix \<open>gp_\<close>.
\<close>

record gp_device =
  gp_kernel_matrix :: buffer
  gp_targets :: buffer
  gp_num_active :: nat
  gp_max_active :: nat
  gp_L :: buffer
  gp_alpha :: buffer
  gp_kernelVector :: buffer
  gp_gamma :: buffer
  gp_scalar1 :: real
  gp_scalar2 :: real
  gp_mu :: buffer
  gp_sigma :: buffer

text \<open>Pointer arithmetic: \<^verbatim>\<open>d_mu + index\<close> as a view of the buffer, and writing a view back.\<close>

definition view_from :: "nat \<Rightarrow> buffer \<Rightarrow> buffer" where
  "view_from off buf = (\<lambda>j. buf (off + j))"

definition write_view :: "nat \<Rightarrow> buffer \<Rightarrow> buffer \<Rightarrow> buffer" where
  "write_view off v buf = (\<lambda>i. if off \<le> i then v (i - off) else buf i)"

text \<open>
  Modelled from the spec: \<^verbatim>\<open>norm_columns(A, x, m, n, lda)\<close> is a CUDA kernel outside
  this file. The spec says of its use that ``the reported \<open>sigma[i]\<close> is the squared norm
  of column \<open>i\<close> of \<open>\<gamma>\<close>'': element \<open>j\<close> of \<open>x\<close>, for \<open>j < n\<close>, receives the sum of the squares
  of the first \<open>m\<close> entries of column \<open>j\<close> of \<open>A\<close>.
\<close>

definition norm_columns :: "buffer \<Rightarrow> buffer \<Rightarrow> nat \<Rightarrow> nat \<Rightarrow> nat \<Rightarrow> buffer" where
  "norm_columns A x m n lda = (\<lambda>j. if j < n then (\<Sum>i<m. A (i + j * lda) ^ 2) else x j)"

text \<open>
  \<^verbatim>\<open>GpPredictChol\<close>. \<open>compute_kernel_vector\<close> (a CUDA routine outside this file) is a
  parameter: from the device state and the query index it gives the new contents of
  \<^verbatim>\<open>d_kernelVector\<close>.
  \<^verbatim>\<open>
  compute_kernel_vector(activeSetBuffers, subsetBuffers, index, d_kernelVector, hypers);
  cudaMemcpy(d_gamma, d_kernelVector, maxActive * sizeof(float), ...);
  cublasStrsv(*handle, CUBLAS_FILL_MODE_UPPER, CUBLAS_OP_N, CUBLAS_DIAG_NON_UNIT,
              numActive, d_L, maxActive, d_gamma, 1);
  cublasSdot(*handle, numActive, d_alpha, 1, d_kernelVector, 1, &(d_mu[index]));
  cublasSdot(*handle, numActive, d_gamma, 1, d_gamma, 1, &(d_sigma[index]));
  \<close>
  cuBLAS rejects a leading dimension below \<open>max 1 n\<close>; a zero on the diagonal makes the
  non-unit solve divide by zero.
\<close>

definition GpPredictChol ::
  "(gp_device \<Rightarrow> nat \<Rightarrow> buffer) \<Rightarrow> nat \<Rightarrow> gp_device \<Rightarrow> fault + gp_device" where
  "GpPredictChol compute_kernel_vector index d =
     (let numActive = gp_num_active d;
          maxActive = gp_max_active d;
          kv = compute_kernel_vector d index;
          gamma0 = cudaMemcpy maxActive kv (gp_gamma d)
      in if maxActive < max 1 numActive then Inl InvalidValue
         else if \<not> diagonal_nonzero (gp_L d) maxActive numActive then Inl NotFinite
         else
           let gamma = cublasStrsv_UN numActive (gp_L d) maxActive gamma0
           in Inr (d\<lparr>gp_kernelVector := kv,
                     gp_gamma := gamma,
                     gp_mu := (gp_mu d)(index := cublasSdot numActive (gp_alpha d) kv),
                     gp_sigma := (gp_sigma d)(index := cublasSdot numActive gamma gamma)\<rparr>))"

text \<open>
  \<^verbatim>\<open>GpPredictCholBatch\<close>, with \<open>compute_kernel_vector_batch\<close> a parameter in the same way.
  \<^verbatim>\<open>
  compute_kernel_vector_batch(activeSetBuffers, subsetBuffers, index, batchSize,
                              d_kernelVectors, hypers);
  cudaMemcpy(d_gamma, d_kernelVectors, maxActive * batchSize * sizeof(float), ...);
  cublasStrsm(*handle, CUBLAS_SIDE_LEFT, CUBLAS_FILL_MODE_UPPER, CUBLAS_OP_T,
              CUBLAS_DIAG_NON_UNIT, numActive, batchSize, d_scalar1, d_L,
              maxActive, d_gamma, maxActive);
  cublasSgemv(*handle, CUBLAS_OP_T, numActive, batchSize, d_scalar1, d_kernelVectors,
              maxActive, d_alpha, 1, d_scalar2, d_mu + index, 1);
  norm_columns(d_gamma, d_sigma + index, numActive, batchSize, maxActive);
  \<close>
\<close>

definition GpPredictCholBatch ::
  "(gp_device \<Rightarrow> nat \<Rightarrow> nat \<Rightarrow> buffer) \<Rightarrow> nat \<Rightarrow> nat \<Rightarrow> gp_device \<Rightarrow> fault + gp_device" where
  "GpPredictCholBatch compute_kernel_vector_batch index batchSize d =
     (let numActive = gp_num_active d;
          maxActive = gp_max_active d;
          kv = compute_kernel_vector_batch d index batchSize;
          gamma0 = cudaMemcpy (maxActive * batchSize) kv (gp_gamma d)
      in if maxActive < max 1 numActive then Inl InvalidValue
         else if \<not> diagonal_nonzero (gp_L d) maxActive numActive then Inl NotFinite
         else
           let gamma = cublasStrsm_LUT numActive batchSize (gp_scalar1 d) (gp_L d) maxActive
                         gamma0 maxActive;
               mu = cublasSgemv_T numActive batchSize (gp_scalar1 d) kv maxActive (gp_alpha d)
                      (gp_scalar2 d) (view_from index (gp_mu d));
               sigma = norm_columns gamma (view_from index (gp_sigma d)) numActive batchSize maxActive
           in Inr (d\<lparr>gp_kernelVector := kv,
                     gp_gamma := gamma,
                     gp_mu := write_view index mu (gp_mu d),
                     gp_sigma := write_view index sigma (gp_sigma d)\<rparr>))"

text \<open>A device with the given factor, weights and capacity, every other buffer zero.\<close>

definition device_with :: "real list \<Rightarrow> real list \<Rightarrow> nat \<Rightarrow> nat \<Rightarrow> gp_device" where
  "device_with L alpha numActive maxActive =
     \<lparr>gp_kernel_matrix = buffer_of [], gp_targets = buffer_of [],
      gp_num_active = numActive, gp_max_active = maxActive,
      gp_L = buffer_of L, gp_alpha = buffer_of alpha,
      gp_kernelVector = buffer_of [], gp_gamma = buffer_of [],
      gp_scalar1 = 1, gp_scalar2 = 0,
      gp_mu = buffer_of [], gp_sigma = buffer_of []\<rparr>"

text \<open>Kernel-vector routines that return a fixed vector, for concrete runs.\<close>

definition fixed_kernel_vector :: "real list \<Rightarrow> gp_device \<Rightarrow> nat \<Rightarrow> buffer" where
  "fixed_kernel_vector kv d index = buffer_of kv"

definition fixed_kernel_vector_batch :: "real list \<Rightarrow> gp_device \<Rightarrow> nat \<Rightarrow> nat \<Rightarrow> buffer" where
  "fixed_kernel_vector_batch kv d index batchSize = buffer_of kv"

subsection \<open>EvaluateErrors\<close>

text \<open>
  \<^verbatim>\<open>PredictionError\<close>, the struct the function fills; the fields carry the prefix \<open>pe_\<close>.
\<close>

record PredictionError =
  pe_mean :: real
  pe_std :: real
  pe_median :: real
  pe_max :: real
  pe_min :: real

text \<open>
  The three Boost accumulator sets receive the same samples, in the same order; an
  accumulator set is modelled by the list of the samples pushed into it. Boost is an
  external library: \<^verbatim>\<open>mean\<close> is the arithmetic mean, \<^verbatim>\<open>moment<2>\<close> the mean of the squares,
  \<^verbatim>\<open>max\<close> and \<^verbatim>\<open>min\<close> the extremes. \<^verbatim>\<open>median\<close> is Boost's P-square estimate, a function
  of the sample sequence that is left as a parameter.
\<close>

definition acc_mean :: "real list \<Rightarrow> real" where
  "acc_mean xs = sum_list xs / real (length xs)"

definition acc_moment2 :: "real list \<Rightarrow> real" where
  "acc_moment2 xs = sum_list (map (\<lambda>x. x * x) xs) / real (length xs)"

definition acc_max :: "real list \<Rightarrow> real" where
  "acc_max xs = fold max (tl xs) (hd xs)"

definition acc_min :: "real list \<Rightarrow> real" where
  "acc_min xs = fold min (tl xs) (hd xs)"

text \<open>
  \<^verbatim>\<open>
  int numTest = 0;
  for (int i = 0; i < numPts; i++) {
    if (active[i] == 0) {
      absError = fabs(predictions[i] - targets[i]);
      meanAccumulator(absError); medianAccumulator(absError); maxMinAccumulator(absError);
      numTest++;
    }
  }
  \<close>
\<close>

function EvaluateErrors_loop ::
  "buffer \<Rightarrow> buffer \<Rightarrow> (nat \<Rightarrow> 8 word) \<Rightarrow> int \<Rightarrow> nat \<Rightarrow> real list \<Rightarrow> int \<Rightarrow> real list \<times> int" where
  "EvaluateErrors_loop predictions targets active numPts i samples numTest =
     (if int i < numPts
      then (if active i = 0
            then EvaluateErrors_loop predictions targets active numPts (Suc i)
                   (samples @ [\<bar>predictions i - targets i\<bar>]) (numTest + 1)
            else EvaluateErrors_loop predictions targets active numPts (Suc i) samples numTest)
      else (samples, numTest))"
  by pat_completeness auto
termination
  by (relation "measure (\<lambda>(predictions, targets, active, numPts, i, samples, numTest).
                  nat (numPts - int i))") auto

declare EvaluateErrors_loop.simps [simp del]

text \<open>
  \<^verbatim>\<open>
  unsigned char* active = new unsigned char[numPts];  ...
  errorStruct.mean = 0; errorStruct.std = 0; errorStruct.median = 0;
  errorStruct.max = 0;  errorStruct.min = 0;
  if (numTest > 0) {
    errorStruct.mean = mean(meanAccumulator);
    errorStruct.std = moment<2>(meanAccumulator);
    errorStruct.median = median(medianAccumulator);
    errorStruct.max = max(maxMinAccumulator);
    errorStruct.min = min(maxMinAccumulator);
  }
  \<close>
  The result is the struct written through \<^verbatim>\<open>errorStruct\<close>; \<^verbatim>\<open>new[]\<close> throws on a negative
  length.
\<close>

definition EvaluateErrors ::
  "(real list \<Rightarrow> real) \<Rightarrow> buffer \<Rightarrow> buffer \<Rightarrow> (nat \<Rightarrow> 8 word) \<Rightarrow> int \<Rightarrow> fault + PredictionError" where
  "EvaluateErrors median_of d_mu d_targets d_active numPts =
     (if numPts < 0 then Inl BadArrayLength
      else
        let (samples, numTest) = EvaluateErrors_loop d_mu d_targets d_active numPts 0 [] 0
        in Inr (if numTest > 0
                then \<lparr>pe_mean = acc_mean samples, pe_std = acc_moment2 samples,
                      pe_median = median_of samples,
                      pe_max = acc_max samples, pe_min = acc_min samples\<rparr>
                else \<lparr>pe_mean = 0, pe_std = 0, pe_median = 0, pe_max = 0, pe_min = 0\<rparr>))"

text \<open>The middle element of the sorted samples, a stand-in for the estimator in concrete runs.\<close>

definition middle_sample :: "real list \<Rightarrow> real" where
  "middle_sample xs = sort xs ! (length xs div 2)"

text \<open>Flags given by their first elements; the remaining offsets hold 0.\<close>

definition flags_of :: "8 word list \<Rightarrow> nat \<Rightarrow> 8 word" where
  "flags_of fs = (\<lambda>i. if i < length fs then fs ! i else 0)"

subsection \<open>Reading results\<close>

definition sigma_at :: "nat \<Rightarrow> gp_device \<Rightarrow> real" where
  "sigma_at i d = gp_sigma d i"

definition mu_at :: "nat \<Rightarrow> gp_device \<Rightarrow> real" where
  "mu_at i d = gp_mu d i"

text \<open>
  The absolute errors of the inactive points among \<open>i..<n\<close>, in index order: what the
  spec says the error summary is computed from.
\<close>

definition inactive_errors :: "buffer \<Rightarrow> buffer \<Rightarrow> (nat \<Rightarrow> 8 word) \<Rightarrow> nat \<Rightarrow> nat \<Rightarrow> real list" where
  "inactive_errors p t a i n = map (\<lambda>j. \<bar>p j - t j\<bar>) (filter (\<lambda>j. a j = 0) [i..<n])"



section \<open>Properties\<close>

subsection \<open>SECovariance\<close>

lemma SECovariance_loop_sum:
  "SECovariance_loop x y dimn i s = s + (\<Sum>j = i..<nat dimn. (x j - y j) ^ 2)"
proof (induction x y dimn i s rule: SECovariance_loop.induct)
  case (1 x y dimn i s)
  show ?case
  proof (cases "int i < dimn")
    case True
    then have lt: "i < nat dimn" by linarith
    have "SECovariance_loop x y dimn i s =
          SECovariance_loop x y dimn (Suc i) (s + (x i - y i) * (x i - y i))"
      using True by (subst SECovariance_loop.simps) simp
    also have "\<dots> = s + (x i - y i) * (x i - y i) + (\<Sum>j = Suc i..<nat dimn. (x j - y j) ^ 2)"
      using "1" True by simp
    also have "\<dots> = s + (\<Sum>j = i..<nat dimn. (x j - y j) ^ 2)"
      using lt by (simp add: sum.atLeast_Suc_lessThan power2_eq_square)
    finally show ?thesis .
  next
    case False
    then have "nat dimn \<le> i" by linarith
    moreover have "SECovariance_loop x y dimn i s = s"
      using False by (subst SECovariance_loop.simps) simp
    ultimately show ?thesis by simp
  qed
qed

text \<open>
  Claim C8. For vectors \<open>x\<close>, \<open>y\<close> of dimension \<open>dimn\<close> (the source's \<^verbatim>\<open>dim\<close>) and a non-zero integer \<open>sigma\<close>
  whose double fits the C \<^verbatim>\<open>int\<close>, \<^verbatim>\<open>SECovariance\<close> returns
  \<open>exp (- \<parallel>x - y\<parallel>\<^sup>2 / (2 * sigma))\<close>, the squared distance being the sum of the squared
  coordinate differences over the first \<open>dimn\<close> coordinates.
\<close>

theorem SECovariance_squared_exponential:
  assumes "sigma \<noteq> 0" and "- (2 ^ 30) \<le> sigma" and "sigma < 2 ^ 30"
  shows "SECovariance x y dimn sigma =
           Inr (exp (- (\<Sum>i<nat dimn. (x i - y i) ^ 2) / (2 * real_of_int sigma)))"
proof -
  have "SECovariance_loop x y dimn 0 0 = (\<Sum>i<nat dimn. (x i - y i) ^ 2)"
    by (simp add: SECovariance_loop_sum atLeast0LessThan)
  moreover have "\<not> (2 * sigma < - (2 ^ 31) \<or> 2 ^ 31 \<le> 2 * sigma)"
    using assms by simp
  moreover have "2 * sigma \<noteq> 0"
    using assms by simp
  ultimately show ?thesis
    by (simp add: SECovariance_def)
qed

theorem SECovariance_squared_exponential_witness:
  "SECovariance (\<lambda>i. [1, 2] ! i) (\<lambda>i. [3, 5] ! i) 2 2 = Inr (exp (- 13 / 4))"
  using SECovariance_squared_exponential [of 2 "\<lambda>i. [1, 2] ! i" "\<lambda>i. [3, 5] ! i" 2]
  by (simp add: lessThan_Suc numeral_2_eq_2)
subsection \<open>Word arithmetic of the loop counter\<close>

lemma unat_succ_below: "(k :: 32 word) < m \<Longrightarrow> unat (k + 1) = Suc (unat k)"
  by unat_arith

lemma int_fact:
  fixes u :: int
  assumes "0 \<le> u" "u < 4294967296" "0 \<le> (u + 2147483648) mod 4294967296 - 2147483648"
  shows "(u + 2147483648) mod 4294967296 - 2147483648 = u"
proof (cases "u < 2147483648")
  case True
  then have "(u + 2147483648) mod 4294967296 = u + 2147483648"
    using assms by (intro mod_pos_pos_trivial) linarith+
  then show ?thesis by linarith
next
  case False
  have "(u + 2147483648) mod 4294967296 = (u - 2147483648 + 4294967296) mod 4294967296"
    by (rule arg_cong [where f = "\<lambda>x. x mod 4294967296"]) linarith
  also have "\<dots> = (u - 2147483648) mod 4294967296"
    by (rule mod_add_self2)
  also have "\<dots> = u - 2147483648"
    using assms False by (intro mod_pos_pos_trivial) linarith+
  finally show ?thesis using assms by linarith
qed

lemma sint_nonneg_unat:
  assumes "0 \<le>s (m :: 32 word)"
  shows "sint m = int (unat m)"
proof -
  have nn: "0 \<le> sint m"
    using assms by (simp add: word_sle_eq)
  have s: "sint m = (uint m + 2147483648) mod 4294967296 - 2147483648"
    by (simp add: sint_uint signed_take_bit_eq_take_bit_shift take_bit_eq_mod)
  have b: "0 \<le> uint m" "uint m < 4294967296"
    using uint_lt2p [of m] by simp_all
  have nn': "0 \<le> (uint m + 2147483648) mod 4294967296 - 2147483648"
    using nn by (simp only: s)
  have "sint m = uint m"
    using int_fact [OF b nn'] by (simp only: s)
  then show ?thesis
    by (simp only: uint_nat)
qed

lemma one_le_nonzero: "(m :: 32 word) \<noteq> 0 \<Longrightarrow> 1 \<le> m"
  by (simp add: word_le_sub1)

subsection \<open>The confidence multiplier\<close>

lemma beta_before_loop_finite:
  assumes N: "0 <s numPoints" and tol: "0 < tolerance"
  shows "beta_before_loop numPoints tolerance =
           Fin (2 * ln (real_of_int (sint numPoints) * pi ^ 2 / (6 * tolerance)))"
proof -
  note of_int_sint [simp del]
  have "0 < sint numPoints"
    using N by (simp add: word_sless_alt)
  then have Npos: "0 < real_of_int (sint numPoints)"
    by (simp only: of_int_0_less_iff)
  have pos: "0 < real_of_int (sint numPoints) * pi ^ 2 / (6 * tolerance)"
    using Npos tol by simp
  have "x_div (Fin (real_of_int (sint numPoints) * pi ^ 2)) (Fin (6 * tolerance)) =
        Fin (real_of_int (sint numPoints) * pi ^ 2 / (6 * tolerance))"
    using tol by simp
  then show ?thesis
    using pos by (simp add: beta_before_loop_def)
qed

lemma beta_in_loop_finite:
  assumes N: "0 <s numPoints" and tol: "0 < tolerance" and k: "k < maxSize"
  shows "beta_in_loop numPoints tolerance k =
           Fin (2 * ln (real_of_int (sint numPoints) * pi ^ 2 * (real (unat k) + 1) ^ 2
                        / (6 * tolerance)))"
proof -
  note of_nat_unat [simp del] of_int_sint [simp del]
  have "0 < sint numPoints"
    using N by (simp add: word_sless_alt)
  then have Npos: "0 < real_of_int (sint numPoints)"
    by (simp only: of_int_0_less_iff)
  have u: "real (unat (k + 1)) = real (unat k) + 1"
    using unat_succ_below [OF k] by simp
  have pos: "0 < real_of_int (sint numPoints) * pi ^ 2 * (real (unat k) + 1) ^ 2 / (6 * tolerance)"
    using Npos tol by (intro divide_pos_pos mult_pos_pos zero_less_power) simp_all
  have "x_div (Fin (real_of_int (sint numPoints) * pi ^ 2 * (real (unat k) + 1) ^ 2))
              (Fin (6 * tolerance)) =
        Fin (real_of_int (sint numPoints) * pi ^ 2 * (real (unat k) + 1) ^ 2 / (6 * tolerance))"
    using tol by simp
  then show ?thesis
    using pos by (simp add: beta_in_loop_def u)
qed

lemma closed_forms_ordered:
  assumes c: "0 < (c :: real)" and ab: "0 \<le> a" "a \<le> b"
  shows "2 * ln c \<le> 2 * ln (c * (a + 1) ^ 2)"
    and "2 * ln (c * (a + 1) ^ 2) \<le> 2 * ln (c * (b + 1) ^ 2)"
proof -
  have sq1: "1 \<le> (a + 1) ^ 2"
    using ab by (intro one_le_power) simp
  have sq2: "(a + 1) ^ 2 \<le> (b + 1) ^ 2"
    using ab by (intro power_mono) simp_all
  have "c * 1 \<le> c * (a + 1) ^ 2"
    using c sq1 by (intro mult_left_mono) simp_all
  then have "ln c \<le> ln (c * (a + 1) ^ 2)"
    using c by (intro ln_mono) simp_all
  then show "2 * ln c \<le> 2 * ln (c * (a + 1) ^ 2)"
    by simp
  have pa: "0 < c * (a + 1) ^ 2"
    using c ab by (intro mult_pos_pos zero_less_power) simp_all
  have "c * (a + 1) ^ 2 \<le> c * (b + 1) ^ 2"
    using c sq2 by (intro mult_left_mono) simp_all
  then have "ln (c * (a + 1) ^ 2) \<le> ln (c * (b + 1) ^ 2)"
    using pa by (intro ln_mono) simp_all
  then show "2 * ln (c * (a + 1) ^ 2) \<le> 2 * ln (c * (b + 1) ^ 2)"
    by simp
qed

text \<open>
  Claim C3, as stated, at a concrete run of \<^verbatim>\<open>SelectCG\<close>: cap 5, pool of 10, tolerance 1,
  two unclassified points seen in the first iteration and none in the second. The second
  iteration takes the \<^verbatim>\<open>continue\<close> and does not recompute the multiplier: the run ends
  after it (\<open>k = 3\<close>) with the value of iteration 1, which is not that of iteration 2.
\<close>

theorem SelectCG_continue_keeps_beta:
  "cg_k (SelectCG (scripted_cg_routines [2, 0]) 5 10 1 0) = 3
   \<and> cg_beta (SelectCG (scripted_cg_routines [2, 0]) 5 10 1 0) = beta_in_loop 10 1 1
   \<and> beta_in_loop 10 1 1 \<noteq> beta_in_loop 10 1 2"
proof -
  have run: "cg_k (SelectCG (scripted_cg_routines [2, 0]) 5 10 1 0) = 3
     \<and> cg_beta (SelectCG (scripted_cg_routines [2, 0]) 5 10 1 0) = beta_in_loop 10 1 1"
    by (simp add: SelectCG_def SelectCG_seeded_def SelectCG_loop.simps SelectCG_body_def
          scripted_cg_routines_def force_valid_num_points_def word_sless_alt Let_def)
  have N: "0 <s (10 :: 32 word)"
    by (simp add: word_sless_alt)
  have b1: "beta_in_loop 10 1 1 = Fin (2 * ln (real_of_int (sint (10 :: 32 word)) * pi ^ 2
                * (real (unat (1 :: 32 word)) + 1) ^ 2 / (6 * 1)))"
    by (rule beta_in_loop_finite [OF N, of 1 1 5]) simp_all
  have b2: "beta_in_loop 10 1 2 = Fin (2 * ln (real_of_int (sint (10 :: 32 word)) * pi ^ 2
                * (real (unat (2 :: 32 word)) + 1) ^ 2 / (6 * 1)))"
    by (rule beta_in_loop_finite [OF N, of 1 2 5]) simp_all
  have "ln (10 * pi ^ 2 * 4 / 6) \<noteq> ln (10 * pi ^ 2 * 9 / 6)"
  proof
    assume "ln (10 * pi ^ 2 * 4 / 6) = ln (10 * pi ^ 2 * 9 / 6)"
    moreover have "(0 :: real) < 10 * pi ^ 2 * 4 / 6" "(0 :: real) < 10 * pi ^ 2 * 9 / 6"
      by simp_all
    ultimately have "10 * pi ^ 2 * 4 / 6 = 10 * pi ^ 2 * 9 / 6"
      by (simp only: ln_inj_iff)
    then show False by simp
  qed
  then have "beta_in_loop 10 1 1 \<noteq> beta_in_loop 10 1 2"
    unfolding b1 b2 by simp
  with run show ?thesis by simp
qed

text \<open>
  Claim C3, amended. For a positive pool size \<open>N\<close> and a positive tolerance the multiplier
  is \<open>2 * ln (N * \<pi>\<^sup>2 / (6 * tolerance))\<close> before either loop. An iteration \<open>k\<close> of
  \<^verbatim>\<open>SelectChol\<close> recomputes it from \<open>k\<close> as \<open>2 * ln (N * \<pi>\<^sup>2 * (k+1)\<^sup>2 / (6 * tolerance))\<close> and
  classifies with the new value. An iteration \<open>k\<close> of \<^verbatim>\<open>SelectCG\<close> that finds unclassified
  points classifies with the value stored before it and then recomputes the multiplier
  by the same formula; an iteration that finds none (the \<^verbatim>\<open>continue\<close>) leaves the
  multiplier and the device as they were.
\<close>

theorem beta_recomputed_every_iteration:
  assumes N: "0 <s numPoints" and tol: "0 < tolerance"
    and ks: "st_k s < maxSize" and kc: "cg_k c < maxSize"
    and left: "count_unclassified G (cg_dev c) \<noteq> 0"
    and none: "count_unclassified G (cg_dev c0) = 0"
  shows "st_beta (SelectChol_seeded R maxSize numPoints tolerance startIndex r) =
           Fin (2 * ln (real_of_int (sint numPoints) * pi ^ 2 / (6 * tolerance)))
       \<and> cg_beta (SelectCG_seeded G maxSize numPoints tolerance r) =
           Fin (2 * ln (real_of_int (sint numPoints) * pi ^ 2 / (6 * tolerance)))
       \<and> st_beta (SelectChol_body R numPoints tolerance accuracy incremental s) =
           Fin (2 * ln (real_of_int (sint numPoints) * pi ^ 2 * (real (unat (st_k s)) + 1) ^ 2
                        / (6 * tolerance)))
       \<and> st_nextIndex (SelectChol_body R numPoints tolerance accuracy incremental s) =
           d_next_index R
             (find_best_active_set_candidate R 0
                (Fin (2 * ln (real_of_int (sint numPoints) * pi ^ 2
                              * (real (unat (st_k s)) + 1) ^ 2 / (6 * tolerance))))
                accuracy (predict_pool R (st_dev s)))
       \<and> cg_beta (SelectCG_body G numPoints tolerance c) =
           Fin (2 * ln (real_of_int (sint numPoints) * pi ^ 2 * (real (unat (cg_k c)) + 1) ^ 2
                        / (6 * tolerance)))
       \<and> cg_dev (SelectCG_body G numPoints tolerance c) =
           SolveLinearSystemCG_dev G
             (cg_update_active_set_buffers G
                (cg_find_best_active_set_candidate G 0 (cg_beta c) 0
                   (predict_unclassified G (cg_dev c))))
       \<and> SelectCG_body G numPoints tolerance c0 = c0\<lparr>cg_numLeft := 0\<rparr>"
proof -
  note bs = beta_in_loop_finite [OF N tol ks]
  note bc = beta_in_loop_finite [OF N tol kc]
  note b0 = beta_before_loop_finite [OF N tol]
  have 1: "st_beta (SelectChol_seeded R maxSize numPoints tolerance startIndex r) =
          beta_before_loop numPoints tolerance"
    by (simp add: SelectChol_seeded_def Let_def)
  have 2: "cg_beta (SelectCG_seeded G maxSize numPoints tolerance r) =
          beta_before_loop numPoints tolerance"
    by (simp add: SelectCG_seeded_def Let_def)
  have 3: "st_beta (SelectChol_body R numPoints tolerance accuracy incremental s) =
          beta_in_loop numPoints tolerance (st_k s)"
    by (simp add: SelectChol_body_def Let_def)
  have 4: "st_nextIndex (SelectChol_body R numPoints tolerance accuracy incremental s) =
           d_next_index R
             (find_best_active_set_candidate R 0 (beta_in_loop numPoints tolerance (st_k s))
                accuracy (predict_pool R (st_dev s)))"
    by (simp add: SelectChol_body_def Let_def)
  have 5: "cg_beta (SelectCG_body G numPoints tolerance c) =
          beta_in_loop numPoints tolerance (cg_k c)"
    using left by (simp add: SelectCG_body_def Let_def)
  have 6: "cg_dev (SelectCG_body G numPoints tolerance c) =
           SolveLinearSystemCG_dev G
             (cg_update_active_set_buffers G
                (cg_find_best_active_set_candidate G 0 (cg_beta c) 0
                   (predict_unclassified G (cg_dev c))))"
    using left by (simp add: SelectCG_body_def Let_def)
  have 7: "SelectCG_body G numPoints tolerance c0 = c0\<lparr>cg_numLeft := 0\<rparr>"
    using none by (simp add: SelectCG_body_def Let_def)
  show ?thesis
    unfolding 1 2 3 4 5 b0 bs bc using 6 7 by (intro conjI refl)
qed

theorem beta_recomputed_every_iteration_witness:
  "st_beta (SelectChol_body (scripted_chol_routines [2]) 10 1 0 True
              (SelectChol_seeded (scripted_chol_routines [2]) 5 10 1 0 0)) =
     Fin (2 * ln (real_of_int (sint (10 :: 32 word)) * pi ^ 2 *
             (real (unat (st_k (SelectChol_seeded (scripted_chol_routines [2]) 5 10 1 0 0))) + 1) ^ 2
             / (6 * 1)))
   \<and> cg_beta (SelectCG_body (scripted_cg_routines [2, 0]) 10 1
              (SelectCG_seeded (scripted_cg_routines [2, 0]) 5 10 1 0)) =
     Fin (2 * ln (real_of_int (sint (10 :: 32 word)) * pi ^ 2 *
             (real (unat (cg_k (SelectCG_seeded (scripted_cg_routines [2, 0]) 5 10 1 0))) + 1) ^ 2
             / (6 * 1)))
   \<and> SelectCG_body (scripted_cg_routines [2, 0]) 10 1
        (SelectCG_seeded (scripted_cg_routines [0]) 5 10 1 0)
      = (SelectCG_seeded (scripted_cg_routines [0]) 5 10 1 0)\<lparr>cg_numLeft := 0\<rparr>"
proof -
  let ?s = "SelectChol_seeded (scripted_chol_routines [2]) 5 10 1 0 0"
  let ?c = "SelectCG_seeded (scripted_cg_routines [2, 0]) 5 10 1 0"
  let ?cz = "SelectCG_seeded (scripted_cg_routines [0]) 5 10 1 0"
  have N: "0 <s (10 :: 32 word)"
    by (simp add: word_sless_alt)
  have tol: "(0 :: real) < 1"
    by simp
  have h1: "st_k ?s < 5"
    by (simp add: SelectChol_seeded_def Let_def)
  have h2: "cg_k ?c < 5"
    by (simp add: SelectCG_seeded_def Let_def)
  have h3: "count_unclassified (scripted_cg_routines [2, 0]) (cg_dev ?c) \<noteq> 0"
    by (simp add: SelectCG_seeded_def scripted_cg_routines_def Let_def)
  have h4: "count_unclassified (scripted_cg_routines [2, 0]) (cg_dev ?cz) = 0"
    by (simp add: SelectCG_seeded_def scripted_cg_routines_def Let_def)
  note r = beta_recomputed_every_iteration [OF N tol h1 h2 h3 h4,
             of "scripted_chol_routines [2]" 0 0 0 True]
  from r show ?thesis
    by (elim conjE) (intro conjI)
qed

text \<open>
  Claim C9. For a positive pool size and a positive tolerance the multiplier is a finite
  number before the loop and in every iteration, and it never decreases along the
  iterations: the value before the loop is at most the value of any iteration, and an
  earlier iteration's value is at most a later one's. The counters are those of the loop,
  below its bound.
\<close>

theorem beta_nondecreasing:
  assumes N: "0 <s numPoints" and tol: "0 < tolerance" and jk: "j \<le> k" and km: "k < maxSize"
  shows "\<exists>b0 bj bk. beta_before_loop numPoints tolerance = Fin b0
           \<and> beta_in_loop numPoints tolerance j = Fin bj
           \<and> beta_in_loop numPoints tolerance k = Fin bk
           \<and> b0 \<le> bj \<and> bj \<le> bk"
proof -
  note of_nat_unat [simp del] of_int_sint [simp del]
  have "0 < sint numPoints"
    using N by (simp add: word_sless_alt)
  then have Npos: "0 < real_of_int (sint numPoints)"
    by (simp only: of_int_0_less_iff)
  have jm: "j < maxSize" using jk km by simp
  define c where "c = real_of_int (sint numPoints) * pi ^ 2 / (6 * tolerance)"
  have cpos: "0 < c" using Npos tol by (simp add: c_def)
  have le: "real (unat j) \<le> real (unat k)"
    using jk by (simp only: of_nat_le_iff word_le_nat_alt)
  have b0: "beta_before_loop numPoints tolerance = Fin (2 * ln c)"
    by (simp only: beta_before_loop_finite [OF N tol] c_def)
  have bj: "beta_in_loop numPoints tolerance j = Fin (2 * ln (c * (real (unat j) + 1) ^ 2))"
    by (simp only: beta_in_loop_finite [OF N tol jm] c_def times_divide_eq_left)
  have bk: "beta_in_loop numPoints tolerance k = Fin (2 * ln (c * (real (unat k) + 1) ^ 2))"
    by (simp only: beta_in_loop_finite [OF N tol km] c_def times_divide_eq_left)
  have "2 * ln c \<le> 2 * ln (c * (real (unat j) + 1) ^ 2)"
    and "2 * ln (c * (real (unat j) + 1) ^ 2) \<le> 2 * ln (c * (real (unat k) + 1) ^ 2)"
    using closed_forms_ordered [OF cpos _ le] by simp_all
  with b0 bj bk show ?thesis by blast
qed

theorem beta_nondecreasing_witness:
  "\<exists>b0 bj bk. beta_before_loop 10 (1 / 10) = Fin b0
     \<and> beta_in_loop 10 (1 / 10) 1 = Fin bj
     \<and> beta_in_loop 10 (1 / 10) 3 = Fin bk
     \<and> b0 \<le> bj \<and> bj \<le> bk"
proof -
  have h1: "0 <s (10 :: 32 word)"
    by (simp add: word_sless_alt)
  have h2: "(0 :: real) < 1 / 10" "(1 :: 32 word) \<le> 3" "(3 :: 32 word) < 5"
    by simp_all
  show ?thesis
    by (rule beta_nondecreasing [OF h1 h2])
qed

subsection \<open>The selection loops\<close>

lemma SelectChol_body_updates:
  "st_updates (SelectChol_body R numPoints tolerance accuracy incremental s) \<le> Suc (st_updates s)"
  by (simp add: SelectChol_body_def Let_def)

lemma SelectChol_loop_continue:
  "st_k s < maxSize \<Longrightarrow> st_nextIndex s \<noteq> - 1 \<Longrightarrow>
   SelectChol_loop R maxSize numPoints tolerance accuracy incremental s =
   SelectChol_loop R maxSize numPoints tolerance accuracy incremental
     ((SelectChol_body R numPoints tolerance accuracy incremental s)\<lparr>st_k := st_k s + 1\<rparr>)"
  by (subst SelectChol_loop.simps) simp

lemma SelectChol_loop_stop:
  "\<not> (st_k s < maxSize \<and> st_nextIndex s \<noteq> - 1) \<Longrightarrow>
   SelectChol_loop R maxSize numPoints tolerance accuracy incremental s = s"
  by (subst SelectChol_loop.simps) auto

lemma SelectChol_loop_updates:
  "st_updates s \<le> unat (st_k s) \<Longrightarrow> st_k s \<le> maxSize \<Longrightarrow>
   st_updates (SelectChol_loop R maxSize numPoints tolerance accuracy incremental s) \<le> unat maxSize"
proof (induction R maxSize numPoints tolerance accuracy incremental s rule: SelectChol_loop.induct)
  case (1 R maxSize numPoints tolerance accuracy incremental s)
  show ?case
  proof (cases "st_k s < maxSize \<and> st_nextIndex s \<noteq> - 1")
    case True
    let ?s' = "(SelectChol_body R numPoints tolerance accuracy incremental s)\<lparr>st_k := st_k s + 1\<rparr>"
    have k: "unat (st_k s + 1) = Suc (unat (st_k s))"
      using True by unat_arith
    have "st_updates ?s' \<le> Suc (st_updates s)"
      using SelectChol_body_updates [of R numPoints tolerance accuracy incremental s] by simp
    then have a: "st_updates ?s' \<le> unat (st_k ?s')"
      using "1.prems"(1) k by simp
    have b: "st_k ?s' \<le> maxSize"
      using True by (simp add: inc_le)
    have "SelectChol_loop R maxSize numPoints tolerance accuracy incremental s =
          SelectChol_loop R maxSize numPoints tolerance accuracy incremental ?s'"
      using True by (simp add: SelectChol_loop_continue)
    with "1.IH" [OF True a b] show ?thesis by simp
  next
    case False
    then have "SelectChol_loop R maxSize numPoints tolerance accuracy incremental s = s"
      by (rule SelectChol_loop_stop)
    moreover have "unat (st_k s) \<le> unat maxSize"
      using "1.prems"(2) by (simp add: word_le_nat_alt)
    ultimately show ?thesis using "1.prems"(1) by simp
  qed
qed

lemma SelectCG_loop_continue:
  "cg_k s < maxSize \<Longrightarrow> 0 <s cg_numLeft s \<Longrightarrow>
   SelectCG_loop G maxSize numPoints tolerance s =
   SelectCG_loop G maxSize numPoints tolerance
     ((SelectCG_body G numPoints tolerance s)\<lparr>cg_k := cg_k s + 1\<rparr>)"
  by (subst SelectCG_loop.simps) simp

lemma SelectCG_loop_stop:
  "\<not> (cg_k s < maxSize \<and> 0 <s cg_numLeft s) \<Longrightarrow>
   SelectCG_loop G maxSize numPoints tolerance s = s"
  by (subst SelectCG_loop.simps) auto

lemma SelectCG_body_updates:
  "cg_updates (SelectCG_body G numPoints tolerance s) \<le> Suc (cg_updates s)"
  by (simp add: SelectCG_body_def Let_def)

lemma SelectCG_loop_updates:
  "cg_updates s \<le> unat (cg_k s) \<Longrightarrow> cg_k s \<le> maxSize \<Longrightarrow>
   cg_updates (SelectCG_loop G maxSize numPoints tolerance s) \<le> unat maxSize"
proof (induction G maxSize numPoints tolerance s rule: SelectCG_loop.induct)
  case (1 G maxSize numPoints tolerance s)
  show ?case
  proof (cases "cg_k s < maxSize \<and> 0 <s cg_numLeft s")
    case True
    let ?s' = "(SelectCG_body G numPoints tolerance s)\<lparr>cg_k := cg_k s + 1\<rparr>"
    have k: "unat (cg_k s + 1) = Suc (unat (cg_k s))"
      using True by unat_arith
    have "cg_updates ?s' \<le> Suc (cg_updates s)"
      using SelectCG_body_updates [of G numPoints tolerance s] by simp
    then have a: "cg_updates ?s' \<le> unat (cg_k ?s')"
      using "1.prems"(1) k by simp
    have b: "cg_k ?s' \<le> maxSize"
      using True by (simp add: inc_le)
    have "SelectCG_loop G maxSize numPoints tolerance s =
          SelectCG_loop G maxSize numPoints tolerance ?s'"
      using True by (simp add: SelectCG_loop_continue)
    with "1.IH" [OF True a b] show ?thesis by simp
  next
    case False
    then have "SelectCG_loop G maxSize numPoints tolerance s = s"
      by (rule SelectCG_loop_stop)
    moreover have "unat (cg_k s) \<le> unat maxSize"
      using "1.prems"(2) by (simp add: word_le_nat_alt)
    ultimately show ?thesis using "1.prems"(1) by simp
  qed
qed

lemma force_valid_num_points_le:
  "force_valid_num_points maxSize numPoints \<le>s numPoints"
  by (auto simp: force_valid_num_points_def word_sle_eq word_sless_alt)

lemma force_valid_num_points_nonneg:
  "0 <s numPoints \<Longrightarrow> 0 \<le>s maxSize \<Longrightarrow> 0 \<le>s force_valid_num_points maxSize numPoints"
  by (auto simp: force_valid_num_points_def word_sle_eq word_sless_alt)

lemma SelectChol_loop_exit_condition:
  "\<not> (st_k (SelectChol_loop R maxSize numPoints tolerance accuracy incremental s) < maxSize
      \<and> st_nextIndex (SelectChol_loop R maxSize numPoints tolerance accuracy incremental s) \<noteq> - 1)"
proof (induction R maxSize numPoints tolerance accuracy incremental s rule: SelectChol_loop.induct)
  case (1 R maxSize numPoints tolerance accuracy incremental s)
  show ?case
  proof (cases "st_k s < maxSize \<and> st_nextIndex s \<noteq> - 1")
    case True
    then show ?thesis
      using "1.IH" by (simp add: SelectChol_loop_continue)
  next
    case False
    then show ?thesis by (simp add: SelectChol_loop_stop)
  qed
qed

text \<open>
  Claim C2, as stated, at a concrete run: cap 5, pool of 10, the classification returning
  index 2 and then the sentinel. The loop is left after the second iteration, with
  \<open>k = 3\<close> below the cap: the sentinel, not the bound, ends it.
\<close>

theorem SelectChol_sentinel_counterexample:
  "st_k (SelectChol (scripted_chol_routines [2]) 5 10 1 0 0 True 0) = 3
   \<and> st_nextIndex (SelectChol (scripted_chol_routines [2]) 5 10 1 0 0 True 0) = - 1
   \<and> st_updates (SelectChol (scripted_chol_routines [2]) 5 10 1 0 0 True 0) = 2"
  by (simp add: SelectChol_def SelectChol_seeded_def SelectChol_loop.simps SelectChol_body_def
        scripted_chol_routines_def force_valid_num_points_def word_sless_alt word_sle_eq Let_def)

text \<open>
  Claim C2, amended. When the classification of an iteration of \<^verbatim>\<open>SelectChol\<close> returns the
  sentinel \<open>-1\<close>, that iteration admits nothing (no call of
  \<^verbatim>\<open>update_active_set_buffers\<close>, no solve: the device is left as the classification left
  it), \<open>k\<close> is incremented, and the loop ends at the next test of
  \<^verbatim>\<open>k < maxSize && nextIndex != -1\<close>.
\<close>

theorem SelectChol_sentinel_ends_loop:
  assumes k: "st_k s < maxSize" and n: "st_nextIndex s \<noteq> - 1"
    and sentinel: "d_next_index R (find_best_active_set_candidate R 0
                     (beta_in_loop numPoints tolerance (st_k s)) accuracy
                     (predict_pool R (st_dev s))) = - 1"
  shows "SelectChol_loop R maxSize numPoints tolerance accuracy incremental s =
           (SelectChol_body R numPoints tolerance accuracy incremental s)\<lparr>st_k := st_k s + 1\<rparr>
       \<and> st_k (SelectChol_loop R maxSize numPoints tolerance accuracy incremental s) = st_k s + 1
       \<and> st_nextIndex (SelectChol_loop R maxSize numPoints tolerance accuracy incremental s) = - 1
       \<and> st_updates (SelectChol_loop R maxSize numPoints tolerance accuracy incremental s) = st_updates s
       \<and> st_dev (SelectChol_loop R maxSize numPoints tolerance accuracy incremental s) =
           find_best_active_set_candidate R 0 (beta_in_loop numPoints tolerance (st_k s)) accuracy
             (predict_pool R (st_dev s))"
proof -
  let ?b = "(SelectChol_body R numPoints tolerance accuracy incremental s)\<lparr>st_k := st_k s + 1\<rparr>"
  have neg: "\<not> (0 \<le>s (- 1 :: 32 word))"
    by (simp add: word_sle_eq)
  have nb: "st_nextIndex ?b = - 1"
    using sentinel neg by (simp add: SelectChol_body_def Let_def)
  have "SelectChol_loop R maxSize numPoints tolerance accuracy incremental s =
        SelectChol_loop R maxSize numPoints tolerance accuracy incremental ?b"
    using k n by (rule SelectChol_loop_continue)
  also have "\<dots> = ?b"
    using nb by (intro SelectChol_loop_stop) simp
  finally have eq: "SelectChol_loop R maxSize numPoints tolerance accuracy incremental s = ?b" .
  show ?thesis
    unfolding eq using sentinel neg by (simp add: SelectChol_body_def Let_def)
qed

theorem SelectChol_sentinel_ends_loop_witness:
  "st_k (SelectChol_loop (scripted_chol_routines []) 5 10 1 0 True
           (SelectChol_seeded (scripted_chol_routines []) 5 10 1 0 0)) = 2
   \<and> st_updates (SelectChol_loop (scripted_chol_routines []) 5 10 1 0 True
           (SelectChol_seeded (scripted_chol_routines []) 5 10 1 0 0)) = 1"
proof -
  let ?R = "scripted_chol_routines []"
  let ?s = "SelectChol_seeded ?R 5 10 1 0 0"
  have h1: "st_k ?s < 5"
    by (simp add: SelectChol_seeded_def Let_def)
  have h2: "st_nextIndex ?s \<noteq> - 1"
    by (simp add: SelectChol_seeded_def Let_def)
  have h3: "d_next_index ?R (find_best_active_set_candidate ?R 0
              (beta_in_loop 10 1 (st_k ?s)) 0 (predict_pool ?R (st_dev ?s))) = - 1"
    by (simp add: SelectChol_seeded_def scripted_chol_routines_def Let_def)
  have v: "st_k ?s + 1 = 2" "st_updates ?s = 1"
    by (simp_all add: SelectChol_seeded_def Let_def)
  note r = SelectChol_sentinel_ends_loop [OF h1 h2 h3, of True]
  from r have "st_k (SelectChol_loop ?R 5 10 1 0 True ?s) = st_k ?s + 1"
    by (elim conjE)
  moreover from r have "st_updates (SelectChol_loop ?R 5 10 1 0 True ?s) = st_updates ?s"
    by (elim conjE)
  ultimately show ?thesis
    by (simp only: v)
qed

lemma sint_small_unat:
  assumes "unat (m :: 32 word) < 2147483648"
  shows "sint m = int (unat m)"
proof -
  have s: "sint m = (uint m + 2147483648) mod 4294967296 - 2147483648"
    by (simp add: sint_uint signed_take_bit_eq_take_bit_shift take_bit_eq_mod)
  have b: "0 \<le> uint m"
    by simp
  have b': "uint m < 2147483648"
    unfolding uint_nat using assms by linarith
  have "(uint m + 2147483648) mod 4294967296 = uint m + 2147483648"
    using b b' by (intro mod_pos_pos_trivial) linarith+
  then have "sint m = uint m"
    using s by linarith
  then show ?thesis
    by (simp only: uint_nat)
qed

lemma nonneg_not_sentinel: "0 \<le>s (x :: 32 word) \<Longrightarrow> x \<noteq> - 1"
  by (auto simp: word_sle_eq)

lemma pred_positive:
  assumes "1 <s (n :: 32 word)"
  shows "0 <s n - 1"
proof -
  have n1: "1 < sint n"
    using assms by (simp add: word_sless_alt)
  then have "0 \<le>s n"
    by (simp add: word_sle_eq)
  then have un: "sint n = int (unat n)"
    by (rule sint_nonneg_unat)
  have lt: "sint n < 2147483648"
    using sint_lt [of n] by simp
  have nz: "n \<noteq> 0"
    using n1 by auto
  have u1: "unat (n - 1) = unat n - 1"
    using nz by (rule unat_minus_one)
  have "unat (n - 1) < 2147483648"
    using u1 un lt by linarith
  then have "sint (n - 1) = int (unat (n - 1))"
    by (rule sint_small_unat)
  then have "0 < sint (n - 1)"
    using u1 un n1 by linarith
  then show ?thesis
    by (simp add: word_sless_alt)
qed

lemma force_valid_num_points_min:
  "sint (force_valid_num_points maxSize numPoints) = min (sint maxSize) (sint numPoints)"
  by (auto simp: force_valid_num_points_def word_sless_alt)

lemma SelectChol_loop_offered:
  "\<forall>d b. 0 \<le>s d_next_index R (find_best_active_set_candidate R 0 b accuracy d) \<Longrightarrow>
   st_updates s = unat (st_k s) \<Longrightarrow> st_k s \<le> maxSize \<Longrightarrow> st_nextIndex s \<noteq> - 1 \<Longrightarrow>
   st_updates (SelectChol_loop R maxSize numPoints tolerance accuracy incremental s) = unat maxSize"
proof (induction R maxSize numPoints tolerance accuracy incremental s rule: SelectChol_loop.induct)
  case (1 R maxSize numPoints tolerance accuracy incremental s)
  note offers = "1.prems"(1)
  show ?case
  proof (cases "st_k s < maxSize \<and> st_nextIndex s \<noteq> - 1")
    case True
    let ?b = "SelectChol_body R numPoints tolerance accuracy incremental s"
    let ?s' = "?b\<lparr>st_k := st_k s + 1\<rparr>"
    let ?next = "d_next_index R (find_best_active_set_candidate R 0
                   (beta_in_loop numPoints tolerance (st_k s)) accuracy (predict_pool R (st_dev s)))"
    have off: "0 \<le>s ?next"
      using offers by blast
    have k: "unat (st_k s + 1) = Suc (unat (st_k s))"
      using True by unat_arith
    have up: "st_updates ?b = Suc (st_updates s)"
      using off by (simp add: SelectChol_body_def Let_def)
    have nx: "st_nextIndex ?b = ?next"
      by (simp add: SelectChol_body_def Let_def)
    have a: "st_updates ?s' = unat (st_k ?s')"
      using up "1.prems"(2) k by simp
    have b: "st_k ?s' \<le> maxSize"
      using True by (simp add: inc_le)
    have c: "st_nextIndex ?s' \<noteq> - 1"
      using nonneg_not_sentinel [OF off] nx by simp
    have "SelectChol_loop R maxSize numPoints tolerance accuracy incremental s =
          SelectChol_loop R maxSize numPoints tolerance accuracy incremental ?s'"
      using True by (simp add: SelectChol_loop_continue)
    with "1.IH" [OF True offers a b c] show ?thesis by simp
  next
    case False
    then have stop: "SelectChol_loop R maxSize numPoints tolerance accuracy incremental s = s"
      by (rule SelectChol_loop_stop)
    have "\<not> st_k s < maxSize"
      using False "1.prems"(4) by simp
    then have "st_k s = maxSize"
      using "1.prems"(3) by simp
    then show ?thesis
      using stop "1.prems"(2) by simp
  qed
qed

lemma SelectCG_loop_offered:
  "\<forall>d. 0 <s count_unclassified G d \<Longrightarrow>
   cg_updates s = unat (cg_k s) \<Longrightarrow> cg_k s \<le> maxSize \<Longrightarrow>
   0 <s cg_numLeft s \<or> cg_k s = maxSize \<Longrightarrow>
   cg_updates (SelectCG_loop G maxSize numPoints tolerance s) = unat maxSize"
proof (induction G maxSize numPoints tolerance s rule: SelectCG_loop.induct)
  case (1 G maxSize numPoints tolerance s)
  note offers = "1.prems"(1)
  show ?case
  proof (cases "cg_k s < maxSize \<and> 0 <s cg_numLeft s")
    case True
    let ?b = "SelectCG_body G numPoints tolerance s"
    let ?s' = "?b\<lparr>cg_k := cg_k s + 1\<rparr>"
    have off: "0 <s count_unclassified G (cg_dev s)"
      using offers by blast
    then have nz: "count_unclassified G (cg_dev s) \<noteq> 0"
      by (auto simp: word_sless_alt)
    have k: "unat (cg_k s + 1) = Suc (unat (cg_k s))"
      using True by unat_arith
    have up: "cg_updates ?b = Suc (cg_updates s)"
      using nz by (simp add: SelectCG_body_def Let_def)
    have nl: "cg_numLeft ?b = count_unclassified G (cg_dev s)"
      using nz by (simp add: SelectCG_body_def Let_def)
    have a: "cg_updates ?s' = unat (cg_k ?s')"
      using up "1.prems"(2) k by simp
    have b: "cg_k ?s' \<le> maxSize"
      using True by (simp add: inc_le)
    have c: "0 <s cg_numLeft ?s' \<or> cg_k ?s' = maxSize"
      using off nl by simp
    have "SelectCG_loop G maxSize numPoints tolerance s =
          SelectCG_loop G maxSize numPoints tolerance ?s'"
      using True by (simp add: SelectCG_loop_continue)
    with "1.IH" [OF True offers a b c] show ?thesis by simp
  next
    case False
    then have stop: "SelectCG_loop G maxSize numPoints tolerance s = s"
      by (rule SelectCG_loop_stop)
    have "cg_k s = maxSize"
      using False "1.prems"(3,4) by auto
    then show ?thesis
      using stop "1.prems"(2) by simp
  qed
qed

lemma admitted_upper_bounds:
  assumes N: "0 <s numPoints" and M: "0 \<le>s maxSize"
  shows "force_valid_num_points maxSize numPoints \<le>s numPoints
       \<and> int (st_updates (SelectChol R maxSize numPoints tolerance accuracy startIndex incremental r))
           \<le> sint numPoints
       \<and> int (cg_updates (SelectCG G maxSize numPoints tolerance r)) \<le> sint numPoints"
proof -
  let ?m = "force_valid_num_points maxSize numPoints"
  have m0: "0 \<le>s ?m" using N M by (rule force_valid_num_points_nonneg)
  have mN: "?m \<le>s numPoints" by (rule force_valid_num_points_le)
  let ?st = "SelectChol_seeded R ?m numPoints tolerance startIndex r"
  have chol: "int (st_updates (SelectChol_loop R ?m numPoints tolerance accuracy incremental ?st))
                \<le> sint numPoints"
  proof (cases "?m = 0")
    case True
    then have "SelectChol_loop R ?m numPoints tolerance accuracy incremental ?st = ?st"
      by (intro SelectChol_loop_stop) simp
    moreover have "st_updates ?st = 1"
      by (simp add: SelectChol_seeded_def Let_def)
    moreover have "1 \<le> sint numPoints"
      using N by (simp add: word_sless_alt)
    ultimately show ?thesis by simp
  next
    case False
    then have "1 \<le> ?m" by (rule one_le_nonzero)
    then have "st_updates (SelectChol_loop R ?m numPoints tolerance accuracy incremental ?st) \<le> unat ?m"
      by (intro SelectChol_loop_updates) (simp_all add: SelectChol_seeded_def Let_def)
    moreover have "int (unat ?m) = sint ?m"
      using sint_nonneg_unat [OF m0] by simp
    moreover have "sint ?m \<le> sint numPoints"
      using mN by (simp add: word_sle_eq)
    ultimately show ?thesis by linarith
  qed
  let ?ct = "SelectCG_seeded G ?m numPoints tolerance r"
  have cg: "int (cg_updates (SelectCG_loop G ?m numPoints tolerance ?ct)) \<le> sint numPoints"
  proof (cases "?m = 0")
    case True
    then have "SelectCG_loop G ?m numPoints tolerance ?ct = ?ct"
      by (intro SelectCG_loop_stop) simp
    moreover have "cg_updates ?ct = 1"
      by (simp add: SelectCG_seeded_def Let_def)
    moreover have "1 \<le> sint numPoints"
      using N by (simp add: word_sless_alt)
    ultimately show ?thesis by simp
  next
    case False
    then have "1 \<le> ?m" by (rule one_le_nonzero)
    then have "cg_updates (SelectCG_loop G ?m numPoints tolerance ?ct) \<le> unat ?m"
      by (intro SelectCG_loop_updates) (simp_all add: SelectCG_seeded_def Let_def)
    moreover have "int (unat ?m) = sint ?m"
      using sint_nonneg_unat [OF m0] by simp
    moreover have "sint ?m \<le> sint numPoints"
      using mN by (simp add: word_sle_eq)
    ultimately show ?thesis by linarith
  qed
  show ?thesis
    using mN chol cg by (simp add: SelectChol_def SelectCG_def Let_def)
qed

text \<open>
  Claim C10. Both \<^verbatim>\<open>SelectChol\<close> and \<^verbatim>\<open>SelectCG\<close> replace the requested cap at entry by
  the smaller of the request and \<^verbatim>\<open>numPoints\<close> (a signed comparison), and it is this
  clamped cap with which the buffers are constructed before the first point is admitted
  and which bounds the loop. For a non-empty pool and a non-negative request the number
  of admissions (calls of \<^verbatim>\<open>update_active_set_buffers\<close>) of a whole run is at most
  \<^verbatim>\<open>numPoints\<close>, whatever the device routines return; and when the classification always
  has a point to offer and the request is positive, it is exactly the smaller of the
  request and \<^verbatim>\<open>numPoints\<close>.
\<close>

theorem admitted_points_within_pool:
  assumes N: "0 <s numPoints" and M: "0 \<le>s maxSize"
  shows "sint (force_valid_num_points maxSize numPoints) = min (sint maxSize) (sint numPoints)
       \<and> SelectChol R maxSize numPoints tolerance accuracy startIndex incremental r =
           (SelectChol_loop R (force_valid_num_points maxSize numPoints) numPoints tolerance
              accuracy incremental
              (SelectChol_seeded R (force_valid_num_points maxSize numPoints) numPoints
                 tolerance startIndex r))
           \<lparr>st_dev := predict_pool R (st_dev
              (SelectChol_loop R (force_valid_num_points maxSize numPoints) numPoints tolerance
                 accuracy incremental
                 (SelectChol_seeded R (force_valid_num_points maxSize numPoints) numPoints
                    tolerance startIndex r)))\<rparr>
       \<and> st_dev (SelectChol_seeded R (force_valid_num_points maxSize numPoints) numPoints
                   tolerance startIndex r) =
           update_active_set_buffers R
             (activate_max_subset_buffers R (if startIndex \<noteq> - 1 then startIndex else r)
                (construct_buffers R (force_valid_num_points maxSize numPoints) numPoints))
       \<and> st_updates (SelectChol_seeded R (force_valid_num_points maxSize numPoints) numPoints
                       tolerance startIndex r) = 1
       \<and> SelectCG G maxSize numPoints tolerance r =
           (SelectCG_loop G (force_valid_num_points maxSize numPoints) numPoints tolerance
              (SelectCG_seeded G (force_valid_num_points maxSize numPoints) numPoints tolerance r))
           \<lparr>cg_dev := cg_predict_pool G (cg_dev
              (SelectCG_loop G (force_valid_num_points maxSize numPoints) numPoints tolerance
                 (SelectCG_seeded G (force_valid_num_points maxSize numPoints) numPoints
                    tolerance r)))\<rparr>
       \<and> cg_dev (SelectCG_seeded G (force_valid_num_points maxSize numPoints) numPoints
                   tolerance r) =
           SolveLinearSystemCG_dev G
             (cg_update_active_set_buffers G
                (cg_activate_max_subset_buffers G r
                   (cg_construct_buffers G (force_valid_num_points maxSize numPoints) numPoints)))
       \<and> cg_updates (SelectCG_seeded G (force_valid_num_points maxSize numPoints) numPoints
                       tolerance r) = 1
       \<and> int (st_updates (SelectChol R maxSize numPoints tolerance accuracy startIndex incremental r))
           \<le> sint numPoints
       \<and> int (cg_updates (SelectCG G maxSize numPoints tolerance r)) \<le> sint numPoints
       \<and> ((\<forall>d b. 0 \<le>s d_next_index R (find_best_active_set_candidate R 0 b accuracy d))
            \<and> 0 <s maxSize \<longrightarrow>
           int (st_updates (SelectChol R maxSize numPoints tolerance accuracy startIndex incremental r))
             = min (sint maxSize) (sint numPoints))
       \<and> ((\<forall>d. 0 <s count_unclassified G d) \<and> 0 <s maxSize \<longrightarrow>
           int (cg_updates (SelectCG G maxSize numPoints tolerance r))
             = min (sint maxSize) (sint numPoints))"
proof -
  let ?m = "force_valid_num_points maxSize numPoints"
  let ?st = "SelectChol_seeded R ?m numPoints tolerance startIndex r"
  let ?ct = "SelectCG_seeded G ?m numPoints tolerance r"
  have m0: "0 \<le>s ?m" using N M by (rule force_valid_num_points_nonneg)
  have um: "int (unat ?m) = min (sint maxSize) (sint numPoints)"
    using sint_nonneg_unat [OF m0] by (simp only: force_valid_num_points_min)
  have 1: "sint ?m = min (sint maxSize) (sint numPoints)"
    by (rule force_valid_num_points_min)
  have 2: "SelectChol R maxSize numPoints tolerance accuracy startIndex incremental r =
             (SelectChol_loop R ?m numPoints tolerance accuracy incremental ?st)
             \<lparr>st_dev := predict_pool R (st_dev
                (SelectChol_loop R ?m numPoints tolerance accuracy incremental ?st))\<rparr>"
    by (simp add: SelectChol_def Let_def)
  have 3: "st_dev ?st = update_active_set_buffers R
             (activate_max_subset_buffers R (if startIndex \<noteq> - 1 then startIndex else r)
                (construct_buffers R ?m numPoints))"
    and 4: "st_updates ?st = 1"
    by (simp_all add: SelectChol_seeded_def Let_def)
  have 5: "SelectCG G maxSize numPoints tolerance r =
             (SelectCG_loop G ?m numPoints tolerance ?ct)
             \<lparr>cg_dev := cg_predict_pool G (cg_dev (SelectCG_loop G ?m numPoints tolerance ?ct))\<rparr>"
    by (simp add: SelectCG_def Let_def)
  have 6: "cg_dev ?ct = SolveLinearSystemCG_dev G
             (cg_update_active_set_buffers G
                (cg_activate_max_subset_buffers G r (cg_construct_buffers G ?m numPoints)))"
    and 7: "cg_updates ?ct = 1"
    by (simp_all add: SelectCG_seeded_def Let_def)
  note ub = admitted_upper_bounds [OF N M, of R tolerance accuracy startIndex incremental r G]
  have 8: "int (st_updates (SelectChol R maxSize numPoints tolerance accuracy startIndex incremental r))
             \<le> sint numPoints"
    and 9: "int (cg_updates (SelectCG G maxSize numPoints tolerance r)) \<le> sint numPoints"
    using ub by blast+
  have 10: "int (st_updates (SelectChol R maxSize numPoints tolerance accuracy startIndex incremental r))
              = min (sint maxSize) (sint numPoints)"
    if offers: "\<forall>d b. 0 \<le>s d_next_index R (find_best_active_set_candidate R 0 b accuracy d)"
      and pos: "0 <s maxSize"
  proof -
    have "0 < min (sint maxSize) (sint numPoints)"
      using N pos by (simp add: word_sless_alt)
    then have "?m \<noteq> 0"
      using 1 by auto
    then have "1 \<le> ?m" by (rule one_le_nonzero)
    then have "st_updates (SelectChol_loop R ?m numPoints tolerance accuracy incremental ?st) = unat ?m"
      using offers by (intro SelectChol_loop_offered) (simp_all add: SelectChol_seeded_def Let_def)
    then show ?thesis
      using um by (simp add: 2)
  qed
  have 11: "int (cg_updates (SelectCG G maxSize numPoints tolerance r))
              = min (sint maxSize) (sint numPoints)"
    if offers: "\<forall>d. 0 <s count_unclassified G d" and pos: "0 <s maxSize"
  proof -
    have mpos: "0 < min (sint maxSize) (sint numPoints)"
      using N pos by (simp add: word_sless_alt)
    then have "?m \<noteq> 0"
      using 1 by auto
    then have le: "1 \<le> ?m" by (rule one_le_nonzero)
    have left: "0 <s cg_numLeft ?ct \<or> cg_k ?ct = ?m"
    proof (cases "?m = 1")
      case True
      then show ?thesis by (simp add: SelectCG_seeded_def Let_def)
    next
      case False
      then have "unat ?m \<noteq> 1"
        by (simp add: word_unat_eq_iff)
      then have "1 < sint numPoints"
        using um mpos by linarith
      then have "1 <s numPoints"
        by (simp add: word_sless_alt)
      then have "0 <s numPoints - 1"
        by (rule pred_positive)
      then show ?thesis by (simp add: SelectCG_seeded_def Let_def)
    qed
    have "cg_updates (SelectCG_loop G ?m numPoints tolerance ?ct) = unat ?m"
      using le left offers
      by (intro SelectCG_loop_offered) (simp_all add: SelectCG_seeded_def Let_def)
    then show ?thesis
      using um by (simp add: 5)
  qed
  show ?thesis
    using 1 2 3 4 5 6 7 8 9 10 11 by blast
qed

theorem admitted_points_within_pool_witness:
  "sint (force_valid_num_points 9 3) = min (sint (9 :: 32 word)) (sint (3 :: 32 word))
   \<and> int (st_updates (SelectChol offering_chol_routines 9 3 1 0 0 True 0)) \<le> sint (3 :: 32 word)
   \<and> int (cg_updates (SelectCG offering_cg_routines 9 3 1 0)) \<le> sint (3 :: 32 word)
   \<and> int (st_updates (SelectChol offering_chol_routines 9 3 1 0 0 True 0))
        = min (sint (9 :: 32 word)) (sint (3 :: 32 word))
   \<and> int (cg_updates (SelectCG offering_cg_routines 9 3 1 0))
        = min (sint (9 :: 32 word)) (sint (3 :: 32 word))"
proof -
  have N: "(0 :: 32 word) <s 3" and M: "(0 :: 32 word) \<le>s 9" and pos: "(0 :: 32 word) <s 9"
    by (simp_all add: word_sless_alt word_sle_eq)
  have oc: "\<forall>d b. 0 \<le>s d_next_index offering_chol_routines
                     (find_best_active_set_candidate offering_chol_routines 0 b 0 d)"
    by (simp add: offering_chol_routines_def word_sle_eq)
  have og: "\<forall>d. 0 <s count_unclassified offering_cg_routines d"
    by (simp add: offering_cg_routines_def word_sless_alt)
  note r = admitted_points_within_pool [OF N M, of offering_chol_routines 1 0 0 True 0
             offering_cg_routines]
  from r oc og pos show ?thesis
    by blast
qed

subsection \<open>SolveLinearSystemCG\<close>
















subsection \<open>The prediction routines\<close>

lemmas predict_eval =
  GpPredictChol_def GpPredictCholBatch_def device_with_def fixed_kernel_vector_def
  fixed_kernel_vector_batch_def cublasStrsv_UN_def cublasStrsm_LUT_def cublasSgemv_T_def
  cublasSdot_def norm_columns_def cudaMemcpy_def view_from_def write_view_def
  diagonal_nonzero_def buffer_of_def on_result_def sigma_at_def mu_at_def Let_def
  lessThan_Suc numeral_2_eq_2 upt_rec

lemma forward_rows_length [simp]: "length (forward_rows A lda b i) = i"
  by (induction i) (simp_all add: Let_def)

lemma forward_rows_prefix:
  "l < i \<Longrightarrow> i \<le> m \<Longrightarrow> forward_rows A lda b m ! l = forward_rows A lda b i ! l"
proof (induction m)
  case 0
  then show ?case by simp
next
  case (Suc m)
  show ?case
  proof (cases "i = Suc m")
    case True
    then show ?thesis by simp
  next
    case False
    with Suc.prems have "i \<le> m" by simp
    moreover have "l < m" using Suc.prems(1) \<open>i \<le> m\<close> by simp
    ultimately show ?thesis
      using Suc.IH [OF Suc.prems(1)] by (simp add: Let_def nth_append)
  qed
qed

lemma forward_rows_last:
  "forward_rows A lda b (Suc i) ! i =
     (b i - (\<Sum>l<i. A (l + i * lda) * forward_rows A lda b i ! l)) / A (i + i * lda)"
  by (simp add: Let_def nth_append)

lemma forward_rows_solves:
  assumes nz: "A (i + i * lda) \<noteq> 0" and im: "i < m"
  shows "(\<Sum>l\<le>i. A (l + i * lda) * forward_rows A lda b m ! l) = b i"
proof -
  let ?x = "forward_rows A lda b m"
  have xi: "?x ! i = (b i - (\<Sum>l<i. A (l + i * lda) * forward_rows A lda b i ! l)) / A (i + i * lda)"
    using forward_rows_prefix [of i "Suc i" m A lda b] im by (simp add: forward_rows_last del: forward_rows.simps)
  have below: "(\<Sum>l<i. A (l + i * lda) * forward_rows A lda b i ! l) = (\<Sum>l<i. A (l + i * lda) * ?x ! l)"
    using im by (intro sum.cong refl) (simp add: forward_rows_prefix [of _ i m])
  have "(\<Sum>l\<le>i. A (l + i * lda) * ?x ! l) = (\<Sum>l<i. A (l + i * lda) * ?x ! l) + A (i + i * lda) * ?x ! i"
    by (simp add: lessThan_Suc_atMost [symmetric])
  also have "\<dots> = b i"
    using nz by (simp add: xi below)
  finally show ?thesis .
qed

lemma diagonal_nonzeroD: "diagonal_nonzero A lda n \<Longrightarrow> i < n \<Longrightarrow> A (i + i * lda) \<noteq> 0"
  by (simp add: diagonal_nonzero_def list_all_iff)

lemma cublasStrsm_LUT_entry:
  assumes "i < m" "m \<le> ldb" "j < n"
  shows "cublasStrsm_LUT m n a A lda B ldb (i + j * ldb) =
           forward_rows A lda (\<lambda>i. a * B (i + j * ldb)) m ! i"
proof -
  have "i < ldb" using assms by simp
  then have "(i + j * ldb) mod ldb = i" "(i + j * ldb) div ldb = j"
    by simp_all
  with assms show ?thesis by (simp add: cublasStrsm_LUT_def)
qed

lemma GpPredictCholBatch_solves:
  assumes run: "GpPredictCholBatch ckvb index batchSize d = Inr d'"
    and j: "j < batchSize" and i: "i < gp_num_active d"
  shows "(\<Sum>l\<le>i. gp_L d (l + i * gp_max_active d) * gp_gamma d' (l + j * gp_max_active d))
           = gp_scalar1 d * gp_kernelVector d' (i + j * gp_max_active d)"
    and "gp_sigma d' (index + j) = (\<Sum>l<gp_num_active d. (gp_gamma d' (l + j * gp_max_active d)) ^ 2)"
proof -
  let ?n = "gp_num_active d" and ?M = "gp_max_active d"
  let ?kv = "ckvb d index batchSize"
  let ?gin = "cudaMemcpy (?M * batchSize) ?kv (gp_gamma d)"
  let ?g = "cublasStrsm_LUT ?n batchSize (gp_scalar1 d) (gp_L d) ?M ?gin ?M"
  from run have cap: "?n \<le> ?M" and diag: "diagonal_nonzero (gp_L d) ?M ?n"
    by (auto simp: GpPredictCholBatch_def Let_def split: if_splits)
  from run have g: "gp_gamma d' = ?g" and kv: "gp_kernelVector d' = ?kv"
    and sg: "gp_sigma d' = write_view index
               (norm_columns ?g (view_from index (gp_sigma d)) ?n batchSize ?M) (gp_sigma d)"
    by (auto simp: GpPredictCholBatch_def Let_def split: if_splits)
  have iM: "i < ?M" using i cap by simp
  have "i + j * ?M < ?M * batchSize"
  proof -
    have "i + j * ?M < ?M + j * ?M" using iM by simp
    also have "\<dots> = ?M * Suc j" by simp
    also have "\<dots> \<le> ?M * batchSize" using j by (intro mult_le_mono2) simp
    finally show ?thesis .
  qed
  then have g0: "?gin (i + j * ?M) = ?kv (i + j * ?M)"
    by (simp add: cudaMemcpy_def)
  have ent: "?g (l + j * ?M) = forward_rows (gp_L d) ?M (\<lambda>i. gp_scalar1 d * ?gin (i + j * ?M)) ?n ! l"
    if "l < ?n" for l
    using that cap j by (rule cublasStrsm_LUT_entry)
  have "(\<Sum>l\<le>i. gp_L d (l + i * ?M) * ?g (l + j * ?M)) =
        (\<Sum>l\<le>i. gp_L d (l + i * ?M) *
           forward_rows (gp_L d) ?M (\<lambda>i. gp_scalar1 d * ?gin (i + j * ?M)) ?n ! l)"
    using i by (intro sum.cong refl) (simp add: ent)
  also have "\<dots> = gp_scalar1 d * ?gin (i + j * ?M)"
    using diagonal_nonzeroD [OF diag i] i by (rule forward_rows_solves)
  finally show "(\<Sum>l\<le>i. gp_L d (l + i * ?M) * gp_gamma d' (l + j * ?M))
           = gp_scalar1 d * gp_kernelVector d' (i + j * ?M)"
    by (simp add: g kv g0)
  show "gp_sigma d' (index + j) = (\<Sum>l<?n. (gp_gamma d' (l + j * ?M)) ^ 2)"
    using j by (simp add: sg g write_view_def norm_columns_def)
qed

text \<open>
  Claim C5 at a concrete input of \<^verbatim>\<open>GpPredictChol\<close>. The factor
  \<open>L = (1, 3/5; 0, 4/5)\<close> is the upper Cholesky factor of the kernel matrix
  \<open>(1, 3/5; 3/5, 1)\<close> of two active points, and the query is the second active point,
  with kernel vector \<open>(3/5, 1)\<close>. The solution of \<open>L\<^sup>T \<gamma> = k\<close> is \<open>(3/5, 4/5)\<close>, of squared
  norm 1, which is what \<^verbatim>\<open>GpPredictCholBatch\<close> stores. \<^verbatim>\<open>GpPredictChol\<close> calls the solve with
  \<^verbatim>\<open>CUBLAS_OP_N\<close>, solves \<open>L \<gamma> = k\<close> and stores \<open>317/200\<close>.
\<close>

theorem GpPredictChol_solves_untransposed_system:
  "on_result (sigma_at 0)
     (GpPredictChol (fixed_kernel_vector [3 / 5, 1]) 0
        (device_with [1, 0, 3 / 5, 4 / 5] [0, 0] 2 2)) = Inr (317 / 200)
   \<and> on_result (sigma_at 0)
     (GpPredictCholBatch (fixed_kernel_vector_batch [3 / 5, 1]) 0 1
        (device_with [1, 0, 3 / 5, 4 / 5] [0, 0] 2 2)) = Inr 1"
  by (simp add: predict_eval)

text \<open>
  Claim C6. A call of \<^verbatim>\<open>GpPredictCholBatch\<close> that returns leaves the kernel matrix, the
  factor \<open>L\<close>, \<open>alpha\<close>, the targets, \<^verbatim>\<open>num_active\<close> and \<^verbatim>\<open>max_active\<close> as they were, and
  leaves \<open>mu\<close> and \<open>sigma\<close> as they were at every index outside
  \<open>[index, index + batchSize)\<close>.
\<close>

theorem GpPredictCholBatch_frame:
  assumes run: "GpPredictCholBatch ckvb index batchSize d = Inr d'"
    and outside: "i < index \<or> index + batchSize \<le> i"
  shows "gp_kernel_matrix d' = gp_kernel_matrix d
       \<and> gp_L d' = gp_L d
       \<and> gp_alpha d' = gp_alpha d
       \<and> gp_targets d' = gp_targets d
       \<and> gp_num_active d' = gp_num_active d
       \<and> gp_max_active d' = gp_max_active d
       \<and> gp_mu d' i = gp_mu d i
       \<and> gp_sigma d' i = gp_sigma d i"
  using assms
  by (auto simp: GpPredictCholBatch_def Let_def write_view_def view_from_def
                 cublasSgemv_T_def norm_columns_def split: if_splits)

theorem GpPredictCholBatch_frame_witness:
  "on_result gp_L
     (GpPredictCholBatch (fixed_kernel_vector_batch [3 / 5, 1]) 0 1
        (device_with [1, 0, 3 / 5, 4 / 5] [1, 2] 2 2))
     = Inr (gp_L (device_with [1, 0, 3 / 5, 4 / 5] [1, 2] 2 2))
   \<and> on_result gp_alpha
     (GpPredictCholBatch (fixed_kernel_vector_batch [3 / 5, 1]) 0 1
        (device_with [1, 0, 3 / 5, 4 / 5] [1, 2] 2 2))
     = Inr (gp_alpha (device_with [1, 0, 3 / 5, 4 / 5] [1, 2] 2 2))
   \<and> on_result (sigma_at 1)
     (GpPredictCholBatch (fixed_kernel_vector_batch [3 / 5, 1]) 0 1
        (device_with [1, 0, 3 / 5, 4 / 5] [1, 2] 2 2))
     = Inr (gp_sigma (device_with [1, 0, 3 / 5, 4 / 5] [1, 2] 2 2) 1)
   \<and> on_result (mu_at 1)
     (GpPredictCholBatch (fixed_kernel_vector_batch [3 / 5, 1]) 0 1
        (device_with [1, 0, 3 / 5, 4 / 5] [1, 2] 2 2))
     = Inr (gp_mu (device_with [1, 0, 3 / 5, 4 / 5] [1, 2] 2 2) 1)"
proof -
  let ?d = "device_with [1, 0, 3 / 5, 4 / 5] [1, 2] 2 2"
  let ?run = "GpPredictCholBatch (fixed_kernel_vector_batch [3 / 5, 1]) 0 1 ?d"
  have "\<exists>d'. ?run = Inr d'"
    by (simp add: GpPredictCholBatch_def device_with_def diagonal_nonzero_def buffer_of_def
                  Let_def upt_rec numeral_2_eq_2)
  then obtain d' where run: "?run = Inr d'" ..
  have outside: "(1 :: nat) < 0 \<or> 0 + 1 \<le> (1 :: nat)"
    by simp
  note frame = GpPredictCholBatch_frame [OF run outside]
  show ?thesis
    unfolding run on_result_def sigma_at_def mu_at_def using frame by simp
qed

subsection \<open>EvaluateErrors\<close>

lemma inactive_errors_step:
  "i < n \<Longrightarrow> inactive_errors p t a i n =
     (if a i = 0 then [\<bar>p i - t i\<bar>] else []) @ inactive_errors p t a (Suc i) n"
  by (simp add: inactive_errors_def upt_conv_Cons)

lemma inactive_errors_done: "n \<le> i \<Longrightarrow> inactive_errors p t a i n = []"
  by (simp add: inactive_errors_def)

lemma EvaluateErrors_loop_samples:
  "EvaluateErrors_loop p t a numPts i samples numTest =
     (samples @ inactive_errors p t a i (nat numPts),
      numTest + int (length (inactive_errors p t a i (nat numPts))))"
proof (induction p t a numPts i samples numTest rule: EvaluateErrors_loop.induct)
  case (1 p t a numPts i samples numTest)
  show ?case
  proof (cases "int i < numPts")
    case True
    then have lt: "i < nat numPts" by linarith
    show ?thesis
    proof (cases "a i = 0")
      case z: True
      have "EvaluateErrors_loop p t a numPts i samples numTest =
            EvaluateErrors_loop p t a numPts (Suc i) (samples @ [\<bar>p i - t i\<bar>]) (numTest + 1)"
        using True z by (subst EvaluateErrors_loop.simps) simp
      then show ?thesis
        using "1.IH"(1) [OF True z] z by (simp add: inactive_errors_step [OF lt])
    next
      case nz: False
      have "EvaluateErrors_loop p t a numPts i samples numTest =
            EvaluateErrors_loop p t a numPts (Suc i) samples numTest"
        using True nz by (subst EvaluateErrors_loop.simps) simp
      then show ?thesis
        using "1.IH"(2) [OF True nz] nz by (simp add: inactive_errors_step [OF lt])
    qed
  next
    case False
    then have "nat numPts \<le> i" by linarith
    moreover have "EvaluateErrors_loop p t a numPts i samples numTest = (samples, numTest)"
      using False by (subst EvaluateErrors_loop.simps) simp
    ultimately show ?thesis by (simp add: inactive_errors_done)
  qed
qed

lemma EvaluateErrors_summary:
  assumes "0 \<le> numPts"
  shows "EvaluateErrors med mu tg act numPts =
           Inr (let samples = inactive_errors mu tg act 0 (nat numPts)
                in if samples \<noteq> []
                   then \<lparr>pe_mean = acc_mean samples, pe_std = acc_moment2 samples,
                         pe_median = med samples,
                         pe_max = acc_max samples, pe_min = acc_min samples\<rparr>
                   else \<lparr>pe_mean = 0, pe_std = 0, pe_median = 0, pe_max = 0, pe_min = 0\<rparr>)"
  using assms by (simp add: EvaluateErrors_def EvaluateErrors_loop_samples Let_def)

lemma inactive_errors_cong:
  assumes "\<forall>i<n. act i = 0 \<longrightarrow> mu i = mu' i \<and> tg i = tg' i"
  shows "inactive_errors mu tg act 0 n = inactive_errors mu' tg' act 0 n"
  unfolding inactive_errors_def using assms by (intro map_cong refl) auto

lemma inactive_errors_all_active:
  assumes "\<forall>i<n. act i \<noteq> 0"
  shows "inactive_errors mu tg act 0 n = []"
  unfolding inactive_errors_def using assms by (auto simp: filter_empty_conv)

text \<open>
  Claim C7. The summary that \<^verbatim>\<open>EvaluateErrors\<close> writes is computed from the absolute errors
  \<open>\<bar>prediction - target\<bar>\<close> of the points whose active flag is 0, in index order, and from
  nothing else: predictions and targets of active points do not influence any of the
  five statistics, and when no point is inactive all five are 0.
\<close>

theorem EvaluateErrors_inactive_points_only:
  assumes n: "0 \<le> numPts"
    and agree: "\<forall>i<nat numPts. act i = 0 \<longrightarrow> mu i = mu' i \<and> tg i = tg' i"
  shows "EvaluateErrors med mu tg act numPts = EvaluateErrors med mu' tg' act numPts
       \<and> ((\<forall>i<nat numPts. act i \<noteq> 0) \<longrightarrow>
            EvaluateErrors med mu tg act numPts =
              Inr \<lparr>pe_mean = 0, pe_std = 0, pe_median = 0, pe_max = 0, pe_min = 0\<rparr>)
       \<and> EvaluateErrors med mu tg act numPts =
            Inr (let samples = map (\<lambda>j. \<bar>mu j - tg j\<bar>) (filter (\<lambda>j. act j = 0) [0..<nat numPts])
                 in if samples \<noteq> []
                    then \<lparr>pe_mean = acc_mean samples, pe_std = acc_moment2 samples,
                          pe_median = med samples,
                          pe_max = acc_max samples, pe_min = acc_min samples\<rparr>
                    else \<lparr>pe_mean = 0, pe_std = 0, pe_median = 0, pe_max = 0, pe_min = 0\<rparr>)"
proof -
  have "EvaluateErrors med mu tg act numPts = EvaluateErrors med mu' tg' act numPts"
    by (simp only: EvaluateErrors_summary [OF n] inactive_errors_cong [OF agree])
  moreover have "EvaluateErrors med mu tg act numPts =
      Inr \<lparr>pe_mean = 0, pe_std = 0, pe_median = 0, pe_max = 0, pe_min = 0\<rparr>"
    if "\<forall>i<nat numPts. act i \<noteq> 0"
    by (simp add: EvaluateErrors_summary [OF n] inactive_errors_all_active [OF that])
  moreover note EvaluateErrors_summary [OF n, of med mu tg act, unfolded inactive_errors_def]
  ultimately show ?thesis by blast
qed

theorem EvaluateErrors_inactive_points_only_witness:
  "EvaluateErrors middle_sample (buffer_of [1, 2, 3]) (buffer_of [1, 5, 5]) (flags_of [0, 1, 0]) 3
     = EvaluateErrors middle_sample (buffer_of [1, 9, 3]) (buffer_of [1, 7, 5]) (flags_of [0, 1, 0]) 3
   \<and> EvaluateErrors middle_sample (buffer_of [1, 2, 3]) (buffer_of [1, 5, 5]) (flags_of [1, 1, 1]) 3
     = Inr \<lparr>pe_mean = 0, pe_std = 0, pe_median = 0, pe_max = 0, pe_min = 0\<rparr>"
proof -
  have n: "(0 :: int) \<le> 3"
    by simp
  have agree: "\<forall>i<nat 3. flags_of [0, 1, 0] i = 0 \<longrightarrow>
                 buffer_of [1, 2, 3] i = buffer_of [1, 9, 3] i
                 \<and> buffer_of [1, 5, 5] i = buffer_of [1, 7, 5] i"
    by (simp add: flags_of_def buffer_of_def less_Suc_eq numeral_3_eq_3 nth_Cons')
  have same: "\<forall>i<nat 3. flags_of [1, 1, 1] i = 0 \<longrightarrow>
                 buffer_of [1, 2, 3] i = buffer_of [1, 2, 3] i
                 \<and> buffer_of [1, 5, 5] i = buffer_of [1, 5, 5] i"
    by simp
  have none: "\<forall>i<nat 3. flags_of [1, 1, 1] i \<noteq> 0"
    by (simp add: flags_of_def less_Suc_eq numeral_3_eq_3 nth_Cons')
  from EvaluateErrors_inactive_points_only [OF n agree, of middle_sample]
       EvaluateErrors_inactive_points_only [OF n same, of middle_sample] none
  show ?thesis
    by blast
qed

end
